theory Spec2Isabelle
  imports Complex_Main
begin

section \<open>The sorted-set store\<close>

text \<open>
  The services keep queues and leaderboards in sorted sets of the key-value store (its
  commands \<^verbatim>\<open>zAdd\<close>, \<^verbatim>\<open>zRem\<close>, \<^verbatim>\<open>zRange\<close> and \<^verbatim>\<open>zCard\<close>). A sorted set holds each
  member once, with a score. It is modelled as a list of (member, score) pairs in which
  no member occurs twice; a range query sorts it by score, and members of equal score by
  the bytes of their text.
\<close>

type_synonym 'a zset = "('a \<times> int) list"

definition zmembers :: "'a zset \<Rightarrow> 'a list" where
  "zmembers z = map fst z"

definition zRem :: "'a zset \<Rightarrow> 'a \<Rightarrow> 'a zset" where
  "zRem z v = filter (\<lambda>e. fst e \<noteq> v) z"

definition zAdd :: "'a zset \<Rightarrow> int \<Rightarrow> 'a \<Rightarrow> 'a zset" where
  "zAdd z score v = zRem z v @ [(v, score)]"

definition zCard :: "'a zset \<Rightarrow> nat" where
  "zCard z = length z"

text \<open>
  Index ranges of the store: a negative index counts from the end, the range is
  inclusive at both ends and is cut to the elements that exist.
\<close>

definition zslice :: "'a list \<Rightarrow> int \<Rightarrow> int \<Rightarrow> 'a list" where
  "zslice xs start stop =
     (let n = int (length xs);
          s0 = (if start < 0 then n + start else start);
          e0 = (if stop < 0 then n + stop else stop);
          s = max 0 s0;
          e = min e0 (n - 1)
      in if s > e then [] else take (nat (e - s + 1)) (drop (nat s) xs))"

text \<open>The order of the store: by score, and for equal scores by the bytes of the
  member, whose text \<open>text\<close> gives.\<close>

fun bytes_le :: "string \<Rightarrow> string \<Rightarrow> bool" where
  "bytes_le [] ys = True"
| "bytes_le (x # xs) [] = False"
| "bytes_le (x # xs) (y # ys) =
     ((of_char x :: nat) < of_char y \<or> (x = y \<and> bytes_le xs ys))"

definition zle :: "('a \<Rightarrow> string) \<Rightarrow> 'a \<times> int \<Rightarrow> 'a \<times> int \<Rightarrow> bool" where
  "zle text a b =
     (snd a < snd b \<or> (snd a = snd b \<and> bytes_le (text (fst a)) (text (fst b))))"

fun zinsert :: "('a \<Rightarrow> string) \<Rightarrow> 'a \<times> int \<Rightarrow> 'a zset \<Rightarrow> 'a zset" where
  "zinsert text a [] = [a]"
| "zinsert text a (b # bs) =
     (if zle text a b then a # b # bs else b # zinsert text a bs)"

definition zsort :: "('a \<Rightarrow> string) \<Rightarrow> 'a zset \<Rightarrow> 'a zset" where
  "zsort text z = foldr (zinsert text) z []"

definition zRange :: "('a \<Rightarrow> string) \<Rightarrow> 'a zset \<Rightarrow> int \<Rightarrow> int \<Rightarrow> 'a list" where
  "zRange text z start stop = zslice (map fst (zsort text z)) start stop"

section \<open>Data model\<close>

text \<open>
  Errors are values. The source throws \<^verbatim>\<open>Error(message)\<close>; the constructor records
  the class of the error in the specification's taxonomy and keeps the message (without
  the quotation marks inside it).
  \<open>BackendError\<close> is a call of the store that rejects; \<open>TypeError\<close> is the call of a
  method that the object does not have; \<open>SyntaxError\<close> is \<^verbatim>\<open>JSON.parse\<close> of a text that
  is not JSON; \<open>ChannelError\<close> is a publish on a bus client that has no channel.
\<close>

datatype error =
    InvalidInput string | NotFound string | BackendError | TypeError string | SyntaxError
  | ChannelError string

text \<open>
  A call of the store may reject. Where a claim depends on it, the calls are counted:
  the budget is the number of calls that succeed before one rejects; \<open>None\<close> is a store
  that never rejects.
\<close>

definition store_call :: "nat option \<Rightarrow> error + nat option" where
  "store_call b =
     (case b of None \<Rightarrow> Inr None | Some 0 \<Rightarrow> Inl BackendError | Some (Suc k) \<Rightarrow> Inr (Some k))"

text \<open>
  The objects of the source are plain JavaScript objects: a key that the object does not
  have itself is looked up in \<^verbatim>\<open>Object.prototype\<close>. There \<^verbatim>\<open>__proto__\<close> gives an object
  and the other keys give functions; all are truthy and none is a number.
\<close>

definition object_function_keys :: "string list" where
  "object_function_keys =
     [''constructor'', ''__defineGetter__'', ''__defineSetter__'', ''hasOwnProperty'',
      ''__lookupGetter__'', ''__lookupSetter__'', ''isPrototypeOf'', ''propertyIsEnumerable'',
      ''toString'', ''valueOf'', ''toLocaleString'']"

definition object_prototype_keys :: "string list" where
  "object_prototype_keys = ''__proto__'' # object_function_keys"

text \<open>
  The records of the source. A field name that several of them share carries a prefix:
  \<open>p_\<close> for the player, \<open>q_\<close> for the queue entry, \<open>gp_\<close> for the participant of a
  match, \<open>g_\<close> for the match, \<open>m_\<close> for the data of \<open>match_found\<close>, \<open>lb_\<close> for a row
  of the leaderboard. Ratings and times are integers. The configuration of a match is
  fixed by its mode and stands for the object \<^verbatim>\<open>getGameConfig\<close> returns.
\<close>

record player_stats =
  gamesPlayed :: int
  wins :: int
  losses :: int
  draws :: int

record player =
  p_id :: string
  p_username :: string
  ratings :: "string \<rightharpoonup> int"
  stats :: player_stats
  p_createdAt :: int
  lastActive :: int

record preferences =
  region :: "string option"
  timeControl :: "string option"
  maxLatency :: "int option"
  skillLevel :: "string option"

text \<open>The entry of a queue: \<^verbatim>\<open>playerData\<close> of \<^verbatim>\<open>addToQueue\<close>. \<open>None\<close> for the
  preferences is JavaScript's \<^verbatim>\<open>null\<close>.\<close>

record playerData =
  q_id :: string
  q_username :: string
  q_rating :: int
  q_preferences :: "preferences option"
  q_socketId :: string
  joinedAt :: int
  searchExpansion :: int

record game_player =
  gp_id :: string
  gp_username :: string
  gp_rating :: int
  gp_socketId :: string

datatype status = starting | active | finished

datatype config = fps_config | chess_config | moba_config | rts_config | no_config

record game_result =
  winnerId :: "string option"
  reason :: string

record game =
  g_id :: string
  g_players :: "game_player list"
  g_gameMode :: string
  g_status :: status
  g_createdAt :: int
  g_config :: config
  startedAt :: "int option"
  endedAt :: "int option"
  result :: "game_result option"

record matchData =
  m_gameId :: string
  m_players :: "playerData list"
  m_gameMode :: string
  m_createdAt :: int

datatype game_update = game_started game | game_ended "game_result option"

datatype bus_message =
    queue_join string string int
  | queue_leave string string int
  | match_created matchData

record leaderboard_row =
  rank :: int
  lb_playerId :: string
  lb_username :: string
  lb_rating :: int
  lb_gamesPlayed :: int

text \<open>
  The state of the system: the keys of the store (\<^verbatim>\<open>player:<id>\<close>, \<^verbatim>\<open>leaderboard:<key>\<close>,
  \<^verbatim>\<open>queue:<mode>\<close>, \<^verbatim>\<open>game:<id>\<close>), the in-memory map \<^verbatim>\<open>activeGames\<close> of the game
  service, whether the bus client has its channel (it has none before \<^verbatim>\<open>connect\<close>), and
  the events emitted and messages published so far. A record stored as JSON is read back
  as it was written. The expiry of keys is a matter of real time and is not modelled. The
  ratings of a player hold the keys that have a number; the services write ratings under
  the four modes only, and a key held with \<^verbatim>\<open>null\<close> (what a NaN is stored as) is not
  told apart from a key the ratings do not have.
\<close>

record world =
  players :: "string \<rightharpoonup> player"
  leaderboards :: "string \<Rightarrow> string zset"
  queues :: "string \<Rightarrow> playerData zset"
  games :: "string \<rightharpoonup> game"
  activeGames :: "string \<rightharpoonup> game"
  game_updates :: "(string \<times> game_update) list"
  match_found :: "matchData list"
  channel :: bool
  published :: "bus_message list"

section \<open>Rating calculator\<close>

text \<open>
  JavaScript numbers are modelled as reals (no NaN, no infinities, no rounding of
  doubles). \<^verbatim>\<open>Math.round\<close> rounds to the nearest integer, a half upwards.
\<close>

definition js_round :: "real \<Rightarrow> int" where
  "js_round x = \<lfloor>x + 1 / 2\<rfloor>"

datatype jsval = Num real | Str string | Undefined

fun is_number :: "jsval \<Rightarrow> bool" where
  "is_number (Num x) = True"
| "is_number v = False"

definition validateInputs :: "jsval \<Rightarrow> jsval \<Rightarrow> string \<Rightarrow> error + unit" where
  "validateInputs playerRating opponentRating res =
     (if \<not> is_number playerRating \<or> \<not> is_number opponentRating
      then Inl (InvalidInput ''Ratings must be numbers'')
      else if res \<notin> set [''win'', ''loss'', ''draw'']
      then Inl (InvalidInput ''Result must be win, loss, or draw'')
      else Inr ())"

definition calculateExpectedScore :: "real \<Rightarrow> real \<Rightarrow> real" where
  "calculateExpectedScore playerRating opponentRating =
     1 / (1 + 10 powr ((opponentRating - playerRating) / 400))"

text \<open>\<^verbatim>\<open>getActualScore\<close> falls through its switch on any other string and returns
  \<^verbatim>\<open>undefined\<close>: \<open>None\<close>.\<close>

definition getActualScore :: "string \<Rightarrow> real option" where
  "getActualScore res =
     (if res = ''win'' then Some 1
      else if res = ''loss'' then Some 0
      else if res = ''draw'' then Some (1 / 2)
      else None)"

text \<open>
  \<^verbatim>\<open>calculateNewRating(playerRating, opponentRating, result, kFactor = 32)\<close>. The optional
  argument is \<open>None\<close> when the caller leaves it out. The result \<open>Inr None\<close> stands for NaN,
  which arithmetic on \<^verbatim>\<open>undefined\<close> would give.
\<close>

definition calculateNewRating ::
  "jsval \<Rightarrow> jsval \<Rightarrow> string \<Rightarrow> real option \<Rightarrow> error + int option" where
  "calculateNewRating playerRating opponentRating res kFactor =
     (case validateInputs playerRating opponentRating res of
        Inl e \<Rightarrow> Inl e
      | Inr _ \<Rightarrow>
          (case (playerRating, opponentRating, getActualScore res) of
             (Num p, Num opp, Some actualScore) \<Rightarrow>
               (let k = (case kFactor of None \<Rightarrow> 32 | Some k' \<Rightarrow> k');
                    expectedScore = calculateExpectedScore p opp;
                    newRating = p + k * (actualScore - expectedScore)
                in Inr (Some (js_round (max 100 newRating))))
           | _ \<Rightarrow> Inr None))"

section \<open>Player service\<close>

definition eloK :: real where
  "eloK = 32"

definition initial_ratings :: "string \<rightharpoonup> int" where
  "initial_ratings =
     [''fps'' \<mapsto> 1000, ''chess'' \<mapsto> 1000, ''moba'' \<mapsto> 1000, ''rts'' \<mapsto> 1000]"

text \<open>
  \<^verbatim>\<open>createPlayer(username, gameMode = 'fps')\<close>. \<open>playerId\<close> is the value \<^verbatim>\<open>uuidv4()\<close>
  returns and \<open>now\<close> the value of \<^verbatim>\<open>Date.now()\<close>. The record is written first; the
  leaderboard write rejects a score that is \<^verbatim>\<open>undefined\<close>, which is what
  \<^verbatim>\<open>player.ratings[gameMode]\<close> is for a mode without a rating.
\<close>

definition createPlayer ::
  "string \<Rightarrow> int \<Rightarrow> string \<Rightarrow> string option \<Rightarrow> world \<Rightarrow> (error + player) \<times> world" where
  "createPlayer playerId now username gameMode w =
     (let mode = (case gameMode of None \<Rightarrow> ''fps'' | Some m \<Rightarrow> m);
          pl = \<lparr>p_id = playerId, p_username = username, ratings = initial_ratings,
                stats = \<lparr>gamesPlayed = 0, wins = 0, losses = 0, draws = 0\<rparr>,
                p_createdAt = now, lastActive = now\<rparr>;
          w1 = w\<lparr>players := (players w)(playerId \<mapsto> pl)\<rparr>
      in case ratings pl mode of
           None \<Rightarrow> (Inl BackendError, w1)
         | Some score \<Rightarrow>
             (Inr pl, w1\<lparr>leaderboards := (leaderboards w1)
                 (''global'' := zAdd (leaderboards w1 ''global'') score playerId)\<rparr>))"

definition getPlayer :: "string \<Rightarrow> world \<Rightarrow> player option" where
  "getPlayer playerId w = players w playerId"

text \<open>
  \<^verbatim>\<open>updatePlayerRating(playerId, gameMode, opponentRating, result)\<close>. When the player has
  no rating in the mode, the arithmetic gives NaN: the record is written with no numeric
  rating there and the leaderboard write rejects the score.
\<close>

definition updatePlayerRating ::
  "int \<Rightarrow> string \<Rightarrow> string \<Rightarrow> int \<Rightarrow> string \<Rightarrow> world \<Rightarrow> (error + player) \<times> world" where
  "updatePlayerRating now playerId gameMode opponentRating res w =
     (case getPlayer playerId w of
        None \<Rightarrow> (Inl (NotFound ''Player not found''), w)
      | Some pl \<Rightarrow>
          (if res \<noteq> ''win'' \<and> res \<noteq> ''loss'' \<and> res \<noteq> ''draw''
           then (Inl (InvalidInput ''Invalid result''), w)
           else
             (let actualScore = (if res = ''win'' then 1 else if res = ''loss'' then 0 else 1 / 2);
                  st = stats pl;
                  st1 = st\<lparr>gamesPlayed := gamesPlayed st + 1\<rparr>;
                  st2 = (if res = ''win'' then st1\<lparr>wins := wins st1 + 1\<rparr>
                         else if res = ''loss'' then st1\<lparr>losses := losses st1 + 1\<rparr>
                         else st1\<lparr>draws := draws st1 + 1\<rparr>)
              in case ratings pl gameMode of
                   None \<Rightarrow>
                     (Inl BackendError,
                      w\<lparr>players := (players w)(playerId \<mapsto>
                          pl\<lparr>ratings := (ratings pl)(gameMode := None), stats := st2,
                             lastActive := now\<rparr>)\<rparr>)
                 | Some currentRating \<Rightarrow>
                     (let expectedScore =
                            calculateExpectedScore (real_of_int currentRating)
                              (real_of_int opponentRating);
                          newRating =
                            js_round (real_of_int currentRating
                                      + eloK * (actualScore - expectedScore));
                          stored = max 100 newRating;
                          pl' = pl\<lparr>ratings := (ratings pl)(gameMode \<mapsto> stored), stats := st2,
                                   lastActive := now\<rparr>;
                          w1 = w\<lparr>players := (players w)(playerId \<mapsto> pl')\<rparr>
                      in (Inr pl', w1\<lparr>leaderboards := (leaderboards w1)
                            (gameMode := zAdd (leaderboards w1 gameMode) stored playerId)\<rparr>)))))"

text \<open>
  \<^verbatim>\<open>getLeaderboard(gameMode = 'global', limit = 100)\<close>: the loop over the range read
  from the sorted set; \<open>i\<close> is the loop index. An entry whose player record is gone is
  skipped.
\<close>

fun leaderboard_rows :: "world \<Rightarrow> int \<Rightarrow> (string \<times> int) list \<Rightarrow> leaderboard_row list" where
  "leaderboard_rows w i [] = []"
| "leaderboard_rows w i ((playerId, rating) # rest) =
     (case getPlayer playerId w of
        None \<Rightarrow> leaderboard_rows w (i + 1) rest
      | Some pl \<Rightarrow>
          \<lparr>rank = i + 1, lb_playerId = playerId, lb_username = p_username pl,
           lb_rating = rating, lb_gamesPlayed = gamesPlayed (stats pl)\<rparr>
          # leaderboard_rows w (i + 1) rest)"

text \<open>
  The range is read by \<^verbatim>\<open>RedisClient.zRevRangeWithScores(key, 0, limit - 1)\<close>. The
  wrapper class of \<^verbatim>\<open>config/redis.js\<close> has no method of that name (it has
  \<^verbatim>\<open>zRevRange(key, start, stop, withScores)\<close>, which no service calls), so the call
  throws.
\<close>

definition wrapper_zRevRangeWithScores ::
  "string zset \<Rightarrow> int \<Rightarrow> int \<Rightarrow> error + (string \<times> int) list" where
  "wrapper_zRevRangeWithScores z start stop =
     Inl (TypeError ''RedisClient.zRevRangeWithScores is not a function'')"

definition getLeaderboard ::
  "string option \<Rightarrow> int option \<Rightarrow> world \<Rightarrow> error + leaderboard_row list" where
  "getLeaderboard gameMode limit w =
     (let mode = (case gameMode of None \<Rightarrow> ''global'' | Some m \<Rightarrow> m);
          lim = (case limit of None \<Rightarrow> 100 | Some l \<Rightarrow> l)
      in case wrapper_zRevRangeWithScores (leaderboards w mode) 0 (lim - 1) of
           Inl e \<Rightarrow> Inl e
         | Inr playersWithScores \<Rightarrow> Inr (leaderboard_rows w 0 playersWithScores))"

section \<open>Game service\<close>

text \<open>
  \<^verbatim>\<open>getGameConfig\<close> looks the mode up in an object and copies the result through JSON.
  For a key that \<^verbatim>\<open>Object.prototype\<close> maps to a function, \<^verbatim>\<open>JSON.stringify\<close> gives
  \<^verbatim>\<open>undefined\<close> and \<^verbatim>\<open>JSON.parse\<close> throws.
\<close>

definition getGameConfig :: "string \<Rightarrow> error + config" where
  "getGameConfig gameMode =
     (if gameMode = ''fps'' then Inr fps_config
      else if gameMode = ''chess'' then Inr chess_config
      else if gameMode = ''moba'' then Inr moba_config
      else if gameMode = ''rts'' then Inr rts_config
      else if gameMode \<in> set object_function_keys then Inl SyntaxError
      else Inr no_config)"

text \<open>
  \<^verbatim>\<open>createGame(gameId, players, gameMode)\<close>, with the budget of the store: the
  configuration is computed first, then the store is written, then the map. It also sets
  the timer that calls \<^verbatim>\<open>startGame(gameId)\<close> five seconds later; a timer firing is a call
  of \<open>startGame\<close> by the environment.
\<close>

definition createGame ::
  "nat option \<Rightarrow> int \<Rightarrow> string \<Rightarrow> playerData list \<Rightarrow> string \<Rightarrow> world
   \<Rightarrow> (error + game \<times> nat option) \<times> world" where
  "createGame b now gameId ps gameMode w =
     (case getGameConfig gameMode of
        Inl e \<Rightarrow> (Inl e, w)
      | Inr cfg \<Rightarrow>
          (let gm = \<lparr>g_id = gameId,
                      g_players = map (\<lambda>p. \<lparr>gp_id = q_id p, gp_username = q_username p,
                                         gp_rating = q_rating p, gp_socketId = q_socketId p\<rparr>) ps,
                      g_gameMode = gameMode, g_status = starting, g_createdAt = now,
                      g_config = cfg, startedAt = None, endedAt = None, result = None\<rparr>
           in case store_call b of
                Inl e \<Rightarrow> (Inl e, w)
              | Inr b1 \<Rightarrow>
                  (Inr (gm, b1), w\<lparr>games := (games w)(gameId \<mapsto> gm),
                                   activeGames := (activeGames w)(gameId \<mapsto> gm)\<rparr>)))"

text \<open>\<^verbatim>\<open>getGame\<close>: the in-memory map first, then the store, whose copy is then kept in
  the map.\<close>

definition getGame :: "string \<Rightarrow> world \<Rightarrow> game option \<times> world" where
  "getGame gameId w =
     (case activeGames w gameId of
        Some gm \<Rightarrow> (Some gm, w)
      | None \<Rightarrow>
          (case games w gameId of
             Some gm \<Rightarrow> (Some gm, w\<lparr>activeGames := (activeGames w)(gameId \<mapsto> gm)\<rparr>)
           | None \<Rightarrow> (None, w)))"

definition updateGame :: "string \<Rightarrow> game \<Rightarrow> world \<Rightarrow> world" where
  "updateGame gameId gm w =
     w\<lparr>games := (games w)(gameId \<mapsto> gm), activeGames := (activeGames w)(gameId \<mapsto> gm)\<rparr>"

definition emit_game_update :: "string \<Rightarrow> game_update \<Rightarrow> world \<Rightarrow> world" where
  "emit_game_update gameId u w = w\<lparr>game_updates := game_updates w @ [(gameId, u)]\<rparr>"

definition startGame :: "int \<Rightarrow> string \<Rightarrow> world \<Rightarrow> world" where
  "startGame now gameId w =
     (case getGame gameId w of
        (None, w1) \<Rightarrow> w1
      | (Some gm, w1) \<Rightarrow>
          (let gm' = gm\<lparr>g_status := active, startedAt := Some now\<rparr>
           in emit_game_update gameId (game_started gm') (updateGame gameId gm' w1)))"

text \<open>Sequencing of two awaited calls: an error of the first ends the function.\<close>

definition and_then ::
  "(error + 'a) \<times> world \<Rightarrow> (world \<Rightarrow> (error + 'b) \<times> world) \<Rightarrow> (error + 'b) \<times> world" where
  "and_then r f = (case r of (Inl e, w) \<Rightarrow> (Inl e, w) | (Inr _, w) \<Rightarrow> f w)"

definition ignore_result :: "(error + 'a) \<times> world \<Rightarrow> (error + unit) \<times> world" where
  "ignore_result r = (case r of (Inl e, w) \<Rightarrow> (Inl e, w) | (Inr _, w) \<Rightarrow> (Inr (), w))"

text \<open>
  \<^verbatim>\<open>endGame(gameId, winnerId = null, reason = 'completed')\<close>. The object that \<^verbatim>\<open>getGame\<close>
  returns is the one the in-memory map holds, so the three assignments change the map at
  once; the store's copy changes in \<^verbatim>\<open>updateGame\<close>, after the ratings. The timer that
  deletes the game from the map sixty seconds later is \<open>evictGame\<close>.
\<close>

definition endGame ::
  "int \<Rightarrow> string \<Rightarrow> string option \<Rightarrow> string option \<Rightarrow> world \<Rightarrow> (error + unit) \<times> world" where
  "endGame now gameId winner reason_arg w =
     (case getGame gameId w of
        (None, w1) \<Rightarrow> (Inr (), w1)
      | (Some gm, w1) \<Rightarrow>
          (let rsn = (case reason_arg of None \<Rightarrow> ''completed'' | Some r \<Rightarrow> r);
               gm' = gm\<lparr>g_status := finished, endedAt := Some now,
                        result := Some \<lparr>winnerId = winner, reason = rsn\<rparr>\<rparr>;
               w2 = w1\<lparr>activeGames := (activeGames w1)(gameId \<mapsto> gm')\<rparr>;
               mode = g_gameMode gm';
               rated =
                 (if mode = ''chess'' \<and> length (g_players gm') = 2
                  then ignore_result
                    (let player1 = g_players gm' ! 0; player2 = g_players gm' ! 1
                     in if winner = Some (gp_id player1)
                        then and_then
                               (updatePlayerRating now (gp_id player1) mode (gp_rating player2) ''win'' w2)
                               (updatePlayerRating now (gp_id player2) mode (gp_rating player1) ''loss'')
                        else if winner = Some (gp_id player2)
                        then and_then
                               (updatePlayerRating now (gp_id player2) mode (gp_rating player1) ''win'' w2)
                               (updatePlayerRating now (gp_id player1) mode (gp_rating player2) ''loss'')
                        else and_then
                               (updatePlayerRating now (gp_id player1) mode (gp_rating player2) ''draw'' w2)
                               (updatePlayerRating now (gp_id player2) mode (gp_rating player1) ''draw''))
                  else (Inr (), w2))
           in case rated of
                (Inl e, w3) \<Rightarrow> (Inl e, w3)
              | (Inr _, w3) \<Rightarrow>
                  (Inr (), emit_game_update gameId (game_ended (result gm'))
                             (updateGame gameId gm' w3))))"

definition evictGame :: "string \<Rightarrow> world \<Rightarrow> world" where
  "evictGame gameId w = w\<lparr>activeGames := (activeGames w)(gameId := None)\<rparr>"

section \<open>Matchmaking service\<close>

text \<open>
  \<^verbatim>\<open>RabbitMQClient.publish(routingKey, data)\<close> throws when the client has no channel;
  otherwise it hands the message to the channel. The boolean it returns is not used by
  its callers.
\<close>

definition publish :: "bus_message \<Rightarrow> world \<Rightarrow> (error + unit) \<times> world" where
  "publish msg w =
     (if \<not> channel w then (Inl (ChannelError ''RabbitMQ channel not initialized''), w)
      else (Inr (), w\<lparr>published := published w @ [msg]\<rparr>))"

text \<open>
  The rating of a queue entry, \<^verbatim>\<open>player.ratings[gameMode] || 1000\<close>: the player's rating
  when it is a number other than 0, else 1000; but for a mode that is a key of
  \<^verbatim>\<open>Object.prototype\<close> and not of the ratings, a function or object (\<open>None\<close>).
\<close>

definition queue_rating :: "player \<Rightarrow> string \<Rightarrow> int option" where
  "queue_rating pl gameMode =
     (case ratings pl gameMode of
        Some r \<Rightarrow> Some (if r = 0 then 1000 else r)
      | None \<Rightarrow> if gameMode \<in> set object_prototype_keys then None else Some 1000)"

text \<open>
  \<^verbatim>\<open>addToQueue(playerId, gameMode, preferences = {}, socketId)\<close>. The member of the sorted
  set is the JSON text of \<^verbatim>\<open>playerData\<close>; two entries are the same member exactly when
  all their fields agree. The store rejects a score that is not a number; its other calls
  are taken to succeed here. The message is published after the entry has been added.
\<close>

definition addToQueue ::
  "int \<Rightarrow> string \<Rightarrow> string \<Rightarrow> preferences option \<Rightarrow> string \<Rightarrow> world \<Rightarrow> (error + unit) \<times> world" where
  "addToQueue now playerId gameMode prefs socketId w =
     (case getPlayer playerId w of
        None \<Rightarrow> (Inl (NotFound ''Player not found''), w)
      | Some pl \<Rightarrow>
          (case queue_rating pl gameMode of
             None \<Rightarrow> (Inl BackendError, w)
           | Some rating \<Rightarrow>
               (let playerData =
                      \<lparr>q_id = playerId, q_username = p_username pl, q_rating = rating,
                       q_preferences = prefs, q_socketId = socketId,
                       joinedAt = now, searchExpansion = 0\<rparr>;
                    w1 = w\<lparr>queues := (queues w)
                           (gameMode := zAdd (queues w gameMode) (q_rating playerData) playerData)\<rparr>
                in publish (queue_join playerId gameMode now) w1)))"

text \<open>The loop of \<^verbatim>\<open>removeFromQueue\<close>: the first member with the player's id is
  removed, and the loop breaks. \<open>json\<close> is the JSON text of an entry, by which the store
  orders entries of equal score.\<close>

fun remove_first :: "string \<Rightarrow> playerData list \<Rightarrow> playerData zset \<Rightarrow> playerData zset" where
  "remove_first playerId [] z = z"
| "remove_first playerId (member # members) z =
     (if q_id member = playerId then zRem z member else remove_first playerId members z)"

definition removeFromQueue ::
  "(playerData \<Rightarrow> string) \<Rightarrow> int \<Rightarrow> string \<Rightarrow> string \<Rightarrow> world \<Rightarrow> (error + unit) \<times> world" where
  "removeFromQueue json now playerId gameMode w =
     (let members = zRange json (queues w gameMode) 0 (- 1);
          w1 = w\<lparr>queues := (queues w)
                 (gameMode := remove_first playerId members (queues w gameMode))\<rparr>
      in publish (queue_leave playerId gameMode now) w1)"

text \<open>\<^verbatim>\<open>getPlayersPerMatch\<close>, \<^verbatim>\<open>config[gameMode] || 2\<close>: a number, or for a key of
  \<^verbatim>\<open>Object.prototype\<close> a function or object (\<open>None\<close>).\<close>

definition getPlayersPerMatch :: "string \<Rightarrow> nat option" where
  "getPlayersPerMatch gameMode =
     (if gameMode = ''fps'' then Some 10
      else if gameMode = ''chess'' then Some 2
      else if gameMode = ''moba'' then Some 10
      else if gameMode = ''rts'' then Some 2
      else if gameMode \<in> set object_prototype_keys then None
      else Some 2)"

text \<open>A string preference is truthy when it is present and not empty.\<close>

definition truthy :: "string option \<Rightarrow> bool" where
  "truthy v = (case v of None \<Rightarrow> False | Some s \<Rightarrow> s \<noteq> [])"

definition no_preferences :: preferences where
  "no_preferences = \<lparr>region = None, timeControl = None, maxLatency = None, skillLevel = None\<rparr>"

definition prefs_of :: "playerData \<Rightarrow> preferences" where
  "prefs_of p = (case q_preferences p of None \<Rightarrow> no_preferences | Some pr \<Rightarrow> pr)"

definition checkFPSCompatibility :: "playerData \<Rightarrow> playerData \<Rightarrow> bool" where
  "checkFPSCompatibility player1 player2 =
     (let p1Prefs = prefs_of player1; p2Prefs = prefs_of player2
      in \<not> (truthy (region p1Prefs) \<and> truthy (region p2Prefs)
             \<and> region p1Prefs \<noteq> region p2Prefs))"

definition checkChessCompatibility :: "playerData \<Rightarrow> playerData \<Rightarrow> bool" where
  "checkChessCompatibility player1 player2 =
     (let p1Prefs = prefs_of player1; p2Prefs = prefs_of player2
      in \<not> (truthy (timeControl p1Prefs) \<and> truthy (timeControl p2Prefs)
             \<and> timeControl p1Prefs \<noteq> timeControl p2Prefs))"

text \<open>
  \<^verbatim>\<open>arePlayersCompatible\<close>; \<open>now\<close> is the value of \<^verbatim>\<open>Date.now()\<close>, read as one instant
  for both entries. The times are integers of milliseconds, so \<^verbatim>\<open>Math.floor\<close> of the
  quotient is integer division.
\<close>

definition arePlayersCompatible :: "int \<Rightarrow> playerData \<Rightarrow> playerData \<Rightarrow> string \<Rightarrow> bool" where
  "arePlayersCompatible now player1 player2 gameMode =
     (let ratingDiff = \<bar>q_rating player1 - q_rating player2\<bar>;
          waitTime = max (now - joinedAt player1) (now - joinedAt player2);
          maxRatingDiff = 100 + (waitTime div 10000) * 30
      in if ratingDiff > maxRatingDiff then False
         else if gameMode = ''fps'' then checkFPSCompatibility player1 player2
         else if gameMode = ''chess'' then checkChessCompatibility player1 player2
         else True)"

text \<open>The comparisons of a length with \<^verbatim>\<open>playersPerMatch\<close>: with a value that is not a
  number, \<^verbatim>\<open><\<close> and \<^verbatim>\<open>===\<close> are false.\<close>

definition length_below :: "'a list \<Rightarrow> nat option \<Rightarrow> bool" where
  "length_below xs n = (case n of None \<Rightarrow> False | Some k \<Rightarrow> length xs < k)"

definition length_is :: "'a list \<Rightarrow> nat option \<Rightarrow> bool" where
  "length_is xs n = (case n of None \<Rightarrow> False | Some k \<Rightarrow> length xs = k)"

text \<open>
  The inner loop of \<^verbatim>\<open>findMatches\<close>: the candidates after the seed, the group so far
  and the set of used ids. The loop ends when the group is full.
\<close>

fun collect ::
  "int \<Rightarrow> string \<Rightarrow> nat option \<Rightarrow> playerData \<Rightarrow> playerData list \<Rightarrow> playerData list
   \<Rightarrow> string set \<Rightarrow> playerData list \<times> string set" where
  "collect now gameMode n seed [] potentialMatch usedPlayers = (potentialMatch, usedPlayers)"
| "collect now gameMode n seed (q # qs) potentialMatch usedPlayers =
     (if length_below potentialMatch n
      then (if q_id q \<in> usedPlayers
            then collect now gameMode n seed qs potentialMatch usedPlayers
            else if arePlayersCompatible now seed q gameMode
            then collect now gameMode n seed qs (potentialMatch @ [q]) (insert (q_id q) usedPlayers)
            else collect now gameMode n seed qs potentialMatch usedPlayers)
      else (potentialMatch, usedPlayers))"

text \<open>The outer loop, over the candidates sorted by \<open>joinedAt\<close>.\<close>

fun group_players ::
  "int \<Rightarrow> string \<Rightarrow> nat option \<Rightarrow> playerData list \<Rightarrow> string set \<Rightarrow> playerData list list" where
  "group_players now gameMode n [] usedPlayers = []"
| "group_players now gameMode n (p # ps) usedPlayers =
     (if q_id p \<in> usedPlayers then group_players now gameMode n ps usedPlayers
      else
        (case collect now gameMode n p ps [p] (insert (q_id p) usedPlayers) of
           (potentialMatch, used') \<Rightarrow>
             if length_is potentialMatch n
             then potentialMatch # group_players now gameMode n ps used'
             else group_players now gameMode n ps (used' - set (map q_id potentialMatch))))"

definition findMatches :: "int \<Rightarrow> playerData list \<Rightarrow> string \<Rightarrow> playerData list list" where
  "findMatches now ps gameMode =
     group_players now gameMode (getPlayersPerMatch gameMode) (sort_key joinedAt ps) {}"

text \<open>
  \<^verbatim>\<open>createMatch(players, gameMode)\<close>: the game is created, then the event is emitted,
  then the message is published.
\<close>

definition createMatch ::
  "int \<Rightarrow> string \<Rightarrow> playerData list \<Rightarrow> string \<Rightarrow> nat option \<times> world
   \<Rightarrow> (error + nat option) \<times> world" where
  "createMatch now gameId ps gameMode bw =
     (let matchData = \<lparr>m_gameId = gameId, m_players = ps, m_gameMode = gameMode,
                       m_createdAt = now\<rparr>
      in case createGame (fst bw) now gameId ps gameMode (snd bw) of
           (Inl e, w1) \<Rightarrow> (Inl e, w1)
         | (Inr (gm, b1), w1) \<Rightarrow>
             (case publish (match_created matchData)
                     (w1\<lparr>match_found := match_found w1 @ [matchData]\<rparr>) of
                (Inl e, w2) \<Rightarrow> (Inl e, w2)
              | (Inr u, w2) \<Rightarrow> (Inr b1, w2)))"

text \<open>The inner loop of the tick: one \<^verbatim>\<open>zRem\<close> for each player of the match.\<close>

fun remove_group ::
  "string \<Rightarrow> playerData list \<Rightarrow> nat option \<times> world \<Rightarrow> (error + nat option) \<times> world" where
  "remove_group gameMode [] bw = (Inr (fst bw), snd bw)"
| "remove_group gameMode (p # ps) bw =
     (case store_call (fst bw) of
        Inl e \<Rightarrow> (Inl e, snd bw)
      | Inr b1 \<Rightarrow>
          remove_group gameMode ps
            (b1, (snd bw)\<lparr>queues := (queues (snd bw))
                    (gameMode := zRem (queues (snd bw) gameMode) p)\<rparr>))"

text \<open>The loop over the matches; \<open>uuid k\<close> is the identifier \<^verbatim>\<open>uuidv4()\<close> gives
  the \<open>k\<close>-th match of the tick.\<close>

fun commit_matches ::
  "int \<Rightarrow> (nat \<Rightarrow> string) \<Rightarrow> nat \<Rightarrow> string \<Rightarrow> playerData list list \<Rightarrow> nat option \<times> world
   \<Rightarrow> (error + nat option) \<times> world" where
  "commit_matches now uuid k gameMode [] bw = (Inr (fst bw), snd bw)"
| "commit_matches now uuid k gameMode (m # ms) bw =
     (case createMatch now (uuid k) m gameMode bw of
        (Inl e, w1) \<Rightarrow> (Inl e, w1)
      | (Inr b1, w1) \<Rightarrow>
          (case remove_group gameMode m (b1, w1) of
             (Inl e, w2) \<Rightarrow> (Inl e, w2)
           | (Inr b2, w2) \<Rightarrow> commit_matches now uuid (Suc k) gameMode ms (b2, w2)))"

text \<open>The body of the \<^verbatim>\<open>try\<close> block of \<^verbatim>\<open>processMatchmaking\<close>: \<open>Inl\<close> is a tick that
  throws.\<close>

definition tick_body ::
  "(playerData \<Rightarrow> string) \<Rightarrow> int \<Rightarrow> (nat \<Rightarrow> string) \<Rightarrow> string \<Rightarrow> nat option \<times> world
   \<Rightarrow> (error + nat option) \<times> world" where
  "tick_body json now uuid gameMode bw =
     (case store_call (fst bw) of
        Inl e \<Rightarrow> (Inl e, snd bw)
      | Inr b1 \<Rightarrow>
          (let members = zRange json (queues (snd bw) gameMode) 0 (- 1)
           in if length members < 2 then (Inr b1, snd bw)
              else commit_matches now uuid 0 gameMode (findMatches now members gameMode)
                     (b1, snd bw)))"

text \<open>\<^verbatim>\<open>processMatchmaking\<close> catches the error and logs it.\<close>

definition processMatchmaking ::
  "(playerData \<Rightarrow> string) \<Rightarrow> int \<Rightarrow> (nat \<Rightarrow> string) \<Rightarrow> string \<Rightarrow> nat option \<Rightarrow> world
   \<Rightarrow> world" where
  "processMatchmaking json now uuid gameMode b w =
     snd (tick_body json now uuid gameMode (b, w))"

section \<open>The specification's wording\<close>

text \<open>
  The rating formula as the specification words it:
  expected = 1 / (1 + 10^((opponent - player)/400)), actual = 1 for a win, 0.5 for a draw,
  0 for a loss, new = round(player + k (actual - expected)), result = max(100, new).
\<close>

definition spec_actual :: "string \<Rightarrow> real" where
  "spec_actual outcome =
     (if outcome = ''win'' then 1 else if outcome = ''draw'' then 1 / 2 else 0)"

definition spec_rating :: "real \<Rightarrow> real \<Rightarrow> string \<Rightarrow> real \<Rightarrow> int" where
  "spec_rating player opponent outcome k =
     (let expected = 1 / (1 + 10 powr ((opponent - player) / 400));
          actual = spec_actual outcome;
          new = js_round (player + k * (actual - expected))
      in max 100 new)"

text \<open>
  The compatibility predicate as the specification words it: the rating gate, and in fps
  (in chess) both entries either lack a region (a time control) or have equal ones.
\<close>

definition spec_gate :: "string option \<Rightarrow> string option \<Rightarrow> bool" where
  "spec_gate x y = ((\<not> truthy x \<and> \<not> truthy y) \<or> x = y)"

definition spec_compatible :: "int \<Rightarrow> playerData \<Rightarrow> playerData \<Rightarrow> string \<Rightarrow> bool" where
  "spec_compatible now a b gameMode =
     (let maxWait = max (now - joinedAt a) (now - joinedAt b)
      in \<bar>q_rating a - q_rating b\<bar> \<le> 100 + 30 * (maxWait div 10000)
         \<and> (if gameMode = ''fps''
             then spec_gate (region (prefs_of a)) (region (prefs_of b))
             else if gameMode = ''chess''
             then spec_gate (timeControl (prefs_of a)) (timeControl (prefs_of b))
             else True))"

text \<open>The change of a rating before it is rounded and floored: the term
  \<^verbatim>\<open>this.eloK * (actualScore - expectedScore)\<close> of \<^verbatim>\<open>updatePlayerRating\<close>.\<close>

definition rating_delta :: "int \<Rightarrow> int \<Rightarrow> real \<Rightarrow> real" where
  "rating_delta cur opp actual =
     eloK * (actual - calculateExpectedScore (real_of_int cur) (real_of_int opp))"

section \<open>Example states\<close>

text \<open>Two stored players, alice and bob, as \<^verbatim>\<open>createPlayer\<close> leaves them.\<close>

definition no_stats :: player_stats where
  "no_stats = \<lparr>gamesPlayed = 0, wins = 0, losses = 0, draws = 0\<rparr>"

definition new_player :: "string \<Rightarrow> player" where
  "new_player name = \<lparr>p_id = name, p_username = name, ratings = initial_ratings,
      stats = no_stats, p_createdAt = 0, lastActive = 0\<rparr>"

definition empty_world :: world where
  "empty_world = \<lparr>players = Map.empty, leaderboards = (\<lambda>k. []), queues = (\<lambda>k. []),
      games = Map.empty, activeGames = Map.empty, game_updates = [], match_found = [],
      channel = True, published = []\<rparr>"

definition two_players :: world where
  "two_players = empty_world\<lparr>players :=
      [''alice'' \<mapsto> new_player ''alice'', ''bob'' \<mapsto> new_player ''bob'']\<rparr>"

text \<open>A chess match of the two, in play; the states after it has been ended once, as a
  draw at time 10, and then a second time; and the first of these with bob's record gone.\<close>

definition participant :: "string \<Rightarrow> int \<Rightarrow> game_player" where
  "participant name r = \<lparr>gp_id = name, gp_username = name, gp_rating = r, gp_socketId = name\<rparr>"

definition chess_game :: game where
  "chess_game = \<lparr>g_id = ''g1'',
      g_players = [participant ''alice'' 1000, participant ''bob'' 1000],
      g_gameMode = ''chess'', g_status = active, g_createdAt = 0, g_config = chess_config,
      startedAt = Some 5, endedAt = None, result = None\<rparr>"

definition game_world :: world where
  "game_world = two_players\<lparr>games := [''g1'' \<mapsto> chess_game],
      activeGames := [''g1'' \<mapsto> chess_game]\<rparr>"

definition after_first_end :: world where
  "after_first_end = snd (endGame 10 ''g1'' None None game_world)"

definition after_second_end :: world where
  "after_second_end = snd (endGame 20 ''g1'' (Some ''alice'') (Some ''timeout'') after_first_end)"

definition finished_game :: game where
  "finished_game = chess_game\<lparr>g_status := finished, endedAt := Some 10,
      result := Some \<lparr>winnerId = None, reason = ''completed''\<rparr>\<rparr>"

definition expired_world :: world where
  "expired_world = after_first_end\<lparr>players := (players after_first_end)(''bob'' := None)\<rparr>"

text \<open>A finished match of a mode without ratings, held by the store only, and a match
  that has just been created.\<close>

definition rts_game :: game where
  "rts_game = \<lparr>g_id = ''g2'',
      g_players = [participant ''alice'' 1000, participant ''bob'' 1000],
      g_gameMode = ''rts'', g_status = finished, g_createdAt = 0, g_config = rts_config,
      startedAt = Some 5, endedAt = Some 10,
      result = Some \<lparr>winnerId = None, reason = ''completed''\<rparr>\<rparr>"

definition rts_world :: world where
  "rts_world = two_players\<lparr>games := [''g2'' \<mapsto> rts_game]\<rparr>"

definition entry :: "string \<Rightarrow> int \<Rightarrow> preferences option \<Rightarrow> int \<Rightarrow> playerData" where
  "entry name r prefs t = \<lparr>q_id = name, q_username = name, q_rating = r, q_preferences = prefs,
      q_socketId = name, joinedAt = t, searchExpansion = 0\<rparr>"

definition starting_world :: world where
  "starting_world =
     snd (createGame None 0 ''g3'' [entry ''alice'' 1000 None 0, entry ''bob'' 1000 None 0] ''rts''
            two_players)"

definition started_game :: game where
  "started_game = \<lparr>g_id = ''g3'',
      g_players = [participant ''alice'' 1000, participant ''bob'' 1000],
      g_gameMode = ''rts'', g_status = starting, g_createdAt = 0, g_config = rts_config,
      startedAt = None, endedAt = None, result = None\<rparr>"

text \<open>Queue entries and queues; alice joining the chess queue twice, and asking for a
  mode named \<^verbatim>\<open>constructor\<close>; the identifiers of the matches of a tick.\<close>

definition region_pref :: "string \<Rightarrow> preferences option" where
  "region_pref r = Some (no_preferences\<lparr>region := Some r\<rparr>)"

definition once_queued :: world where
  "once_queued = snd (addToQueue 1 ''alice'' ''chess'' None ''s1'' two_players)"

definition twice_queued :: world where
  "twice_queued = snd (addToQueue 2 ''alice'' ''chess'' None ''s1'' once_queued)"

definition uuid_seq :: "nat \<Rightarrow> string" where
  "uuid_seq k = (if k = 0 then ''m0'' else ''m1'')"

definition chess_queue :: "playerData zset" where
  "chess_queue = [(entry ''alice'' 1000 None 0, 1000), (entry ''bob'' 1050 None 0, 1050)]"

definition queue_world :: world where
  "queue_world = two_players\<lparr>queues := (\<lambda>k. [])(''chess'' := chess_queue)\<rparr>"

definition four_queue :: "playerData zset" where
  "four_queue = [(entry ''alice'' 1000 None 0, 1000), (entry ''bob'' 1050 None 0, 1050),
                 (entry ''carol'' 1500 None 1, 1500), (entry ''dave'' 1520 None 1, 1520)]"

definition four_world :: world where
  "four_world = two_players\<lparr>queues := (\<lambda>k. [])(''chess'' := four_queue)\<rparr>"

text \<open>The chess queue before the bus client has connected; and a queue in which alice
  has two entries, the second from a later call with another rating.\<close>

definition offline_world :: world where
  "offline_world = queue_world\<lparr>channel := False\<rparr>"

definition double_queue :: "playerData zset" where
  "double_queue = [(entry ''alice'' 1000 None 0, 1000), (entry ''alice'' 1016 None 1, 1016),
                   (entry ''bob'' 1050 None 0, 1050)]"

definition double_world :: world where
  "double_world = two_players\<lparr>queues := (\<lambda>k. [])(''chess'' := double_queue)\<rparr>"

text \<open>
  The JSON text of an entry without preferences, as \<^verbatim>\<open>JSON.stringify\<close> writes it for
  names without characters that it escapes and numbers that are not negative.
\<close>

fun digits :: "nat \<Rightarrow> string" where
  "digits n = (if n < 10 then [char_of (48 + n)]
               else digits (n div 10) @ [char_of (48 + n mod 10)])"

declare digits.simps [simp del]

definition quoted :: "string \<Rightarrow> string" where
  "quoted s = [CHR 0x22] @ s @ [CHR 0x22]"

definition entry_json :: "playerData \<Rightarrow> string" where
  "entry_json p =
     ''{'' @ quoted ''id'' @ '':'' @ quoted (q_id p)
     @ '','' @ quoted ''username'' @ '':'' @ quoted (q_username p)
     @ '','' @ quoted ''rating'' @ '':'' @ digits (nat (q_rating p))
     @ '','' @ quoted ''preferences'' @ '':null''
     @ '','' @ quoted ''socketId'' @ '':'' @ quoted (q_socketId p)
     @ '','' @ quoted ''joinedAt'' @ '':'' @ digits (nat (joinedAt p))
     @ '','' @ quoted ''searchExpansion'' @ '':'' @ digits (nat (searchExpansion p)) @ ''}''"

section \<open>Rounding and the rating formula\<close>

lemma js_round_mono: "x \<le> y \<Longrightarrow> js_round x \<le> js_round y"
  by (simp add: js_round_def floor_mono)

lemma js_round_of_int: "js_round (of_int n) = n"
  by (simp add: js_round_def)

lemma js_round_100: "js_round 100 = 100"
  using js_round_of_int [of 100] by simp

text \<open>Rounding and the floor commute: \<^verbatim>\<open>Math.round(Math.max(100, x))\<close> of the calculator
  is \<^verbatim>\<open>Math.max(100, Math.round(x))\<close> of the player service.\<close>

lemma js_round_max_100: "js_round (max 100 x) = max 100 (js_round x)"
proof (cases "x \<le> 100")
  case True
  then have "js_round x \<le> js_round 100" by (rule js_round_mono)
  then show ?thesis using True by (simp add: max_def js_round_100)
next
  case False
  then have "js_round 100 \<le> js_round x" by (intro js_round_mono) simp
  then show ?thesis using False by (simp add: max_def js_round_100)
qed

lemma calculateNewRating_valid:
  assumes "outcome \<in> {''win'', ''loss'', ''draw''}"
  shows "calculateNewRating (Num p) (Num opp) outcome k =
           Inr (Some (spec_rating p opp outcome (case k of None \<Rightarrow> 32 | Some k' \<Rightarrow> k')))"
  using assms
  by (auto simp add: calculateNewRating_def validateInputs_def getActualScore_def
      js_round_max_100 Let_def spec_rating_def spec_actual_def calculateExpectedScore_def)

lemma calculateNewRating_bad_outcome:
  assumes "outcome \<notin> {''win'', ''loss'', ''draw''}"
  shows "\<exists>msg. calculateNewRating a b outcome k = Inl (InvalidInput msg)"
  using assms by (simp add: calculateNewRating_def validateInputs_def)

lemma calculateNewRating_not_number:
  assumes "\<not> (is_number a \<and> is_number b)"
  shows "calculateNewRating a b outcome k = Inl (InvalidInput ''Ratings must be numbers'')"
  using assms by (auto simp add: calculateNewRating_def validateInputs_def)

lemma updatePlayerRating_valid:
  assumes "getPlayer playerId w = Some pl" "ratings pl gameMode = Some cur"
    "outcome \<in> {''win'', ''loss'', ''draw''}"
  shows "\<exists>pl' w'. updatePlayerRating now playerId gameMode opp outcome w = (Inr pl', w')
            \<and> getPlayer playerId w' = Some pl'
            \<and> ratings pl' gameMode
                = Some (spec_rating (real_of_int cur) (real_of_int opp) outcome 32)"
  using assms
  by (auto simp add: updatePlayerRating_def Let_def spec_rating_def spec_actual_def
      calculateExpectedScore_def eloK_def getPlayer_def)

lemma updatePlayerRating_bad_outcome:
  assumes "getPlayer playerId w = Some pl" "outcome \<notin> {''win'', ''loss'', ''draw''}"
  shows "updatePlayerRating now playerId gameMode opp outcome w
           = (Inl (InvalidInput ''Invalid result''), w)"
  using assms by (auto simp add: updatePlayerRating_def)

lemma spec_rating_floor: "100 \<le> spec_rating p opp outcome k"
  by (simp add: spec_rating_def Let_def)

section \<open>Expected scores and rating changes\<close>

lemma expected_bounds: "0 < calculateExpectedScore a b \<and> calculateExpectedScore a b < 1"
proof -
  define t :: real where "t = 10 powr ((b - a) / 400)"
  have "0 < t" by (simp add: t_def)
  then have "0 < 1 / (1 + t) \<and> 1 / (1 + t) < 1" by (simp add: field_simps)
  then show ?thesis by (simp add: calculateExpectedScore_def t_def)
qed

lemma expected_sum: "calculateExpectedScore a b + calculateExpectedScore b a = 1"
proof -
  define t where "t = 10 powr ((b - a) / 400)"
  have t: "0 < t" by (simp add: t_def)
  have "(a - b) / 400 = - ((b - a) / 400)" by (simp add: field_simps)
  then have "10 powr ((a - b) / 400) = 1 / t"
    unfolding t_def by (simp only: powr_minus_divide)
  then have "calculateExpectedScore b a = 1 / (1 + 1 / t)"
    by (simp add: calculateExpectedScore_def)
  also have "\<dots> = t / (1 + t)" using t by (simp add: field_simps)
  finally have ba: "calculateExpectedScore b a = t / (1 + t)" .
  have ab: "calculateExpectedScore a b = 1 / (1 + t)"
    by (simp add: calculateExpectedScore_def t_def)
  have "1 / (1 + t) + t / (1 + t) = 1" using t by (simp add: field_simps)
  then show ?thesis by (simp only: ab ba)
qed

lemma rating_delta_sum: "rating_delta a b 1 + rating_delta b a 0 = 0"
proof -
  have "rating_delta a b 1 + rating_delta b a 0
      = eloK * (1 - (calculateExpectedScore (real_of_int a) (real_of_int b)
                     + calculateExpectedScore (real_of_int b) (real_of_int a)))"
    by (simp add: rating_delta_def algebra_simps)
  then show ?thesis by (simp add: expected_sum)
qed

lemma rating_delta_bound:
  assumes "0 \<le> actual" "actual \<le> 1"
  shows "\<bar>rating_delta a b actual\<bar> \<le> 32"
proof -
  let ?e = "calculateExpectedScore (real_of_int a) (real_of_int b)"
  have "0 < ?e" "?e < 1" using expected_bounds by auto
  then have "\<bar>actual - ?e\<bar> \<le> 1" using assms by (simp add: abs_le_iff)
  then have "32 * \<bar>actual - ?e\<bar> \<le> 32" by simp
  then show ?thesis by (simp add: rating_delta_def eloK_def abs_mult)
qed

lemma js_round_add_int: "js_round (real_of_int n + x) = n + js_round x"
proof -
  have "real_of_int n + x + 1 / 2 = (x + 1 / 2) + real_of_int n" by simp
  then show ?thesis unfolding js_round_def by (simp only: floor_add_int) simp
qed

lemma stored_delta_bound:
  assumes "\<bar>d\<bar> \<le> 32" "100 \<le> r"
  shows "\<bar>max 100 (js_round (real_of_int r + d)) - r\<bar> \<le> 32"
proof -
  have "js_round (- 32) \<le> js_round d" "js_round d \<le> js_round 32"
    using assms(1) by (auto intro!: js_round_mono)
  moreover have "js_round 32 = 32" using js_round_of_int [of 32] by simp
  moreover have "js_round (- 32) = - 32" using js_round_of_int [of "- 32"] by simp
  ultimately have "- 32 \<le> js_round d" "js_round d \<le> 32" by simp_all
  then show ?thesis using assms(2) unfolding js_round_add_int by linarith
qed

lemma updatePlayerRating_effect:
  assumes "getPlayer playerId w = Some pl" "ratings pl gameMode = Some cur"
    "outcome \<in> {''win'', ''loss'', ''draw''}"
  shows "\<exists>pl'. updatePlayerRating now playerId gameMode opp outcome w
            = (Inr pl', w\<lparr>players := (players w)(playerId \<mapsto> pl'),
                 leaderboards := (leaderboards w)
                   (gameMode := zAdd (leaderboards w gameMode)
                      (max 100 (js_round (real_of_int cur + rating_delta cur opp (spec_actual outcome))))
                      playerId)\<rparr>)
          \<and> ratings pl' = (ratings pl)(gameMode \<mapsto>
                max 100 (js_round (real_of_int cur + rating_delta cur opp (spec_actual outcome))))
          \<and> gamesPlayed (stats pl') = gamesPlayed (stats pl) + 1"
  using assms
  by (auto simp add: updatePlayerRating_def Let_def rating_delta_def spec_actual_def getPlayer_def)

section \<open>The effect of ending and starting a match\<close>

lemma getGame_cases:
  assumes "fst (getGame gameId w) = Some gm"
  obtains w1 where "getGame gameId w = (Some gm, w1)" "players w1 = players w"
    "leaderboards w1 = leaderboards w" "game_updates w1 = game_updates w"
    "activeGames w1 gameId = Some gm"
  using assms
  by (auto simp add: getGame_def split: option.splits)

lemma getPlayer_frame [simp]:
  "getPlayer p (w\<lparr>activeGames := a\<rparr>) = getPlayer p w"
  "getPlayer p (updateGame g gm w) = getPlayer p w"
  "getPlayer p (emit_game_update g u w) = getPlayer p w"
  by (simp_all add: getPlayer_def updateGame_def emit_game_update_def)

lemma two_updates:
  assumes "id1 \<noteq> id2"
    and "getPlayer id1 w = Some P1" "ratings P1 m = Some r1"
    and "getPlayer id2 w = Some P2" "ratings P2 m = Some r2"
    and "o1 \<in> {''win'', ''loss'', ''draw''}" "o2 \<in> {''win'', ''loss'', ''draw''}"
  shows "\<exists>P1' P2' w'.
      and_then (updatePlayerRating now id1 m opp1 o1 w) (updatePlayerRating now id2 m opp2 o2)
        = (Inr P2', w')
      \<and> getPlayer id1 w' = Some P1' \<and> getPlayer id2 w' = Some P2'
      \<and> ratings P1' m = Some (max 100 (js_round (real_of_int r1 + rating_delta r1 opp1 (spec_actual o1))))
      \<and> ratings P2' m = Some (max 100 (js_round (real_of_int r2 + rating_delta r2 opp2 (spec_actual o2))))
      \<and> gamesPlayed (stats P1') = gamesPlayed (stats P1) + 1
      \<and> gamesPlayed (stats P2') = gamesPlayed (stats P2) + 1
      \<and> activeGames w' = activeGames w \<and> games w' = games w
      \<and> game_updates w' = game_updates w"
proof -
  from updatePlayerRating_effect [OF assms(2) assms(3) assms(6), of now opp1]
  obtain P1' where
    u1: "updatePlayerRating now id1 m opp1 o1 w
        = (Inr P1', w\<lparr>players := (players w)(id1 \<mapsto> P1'),
             leaderboards := (leaderboards w)
               (m := zAdd (leaderboards w m)
                  (max 100 (js_round (real_of_int r1 + rating_delta r1 opp1 (spec_actual o1)))) id1)\<rparr>)"
    and r1: "ratings P1' = (ratings P1)(m \<mapsto> max 100 (js_round (real_of_int r1 + rating_delta r1 opp1 (spec_actual o1))))"
    and g1: "gamesPlayed (stats P1') = gamesPlayed (stats P1) + 1"
    by blast
  let ?w1 = "w\<lparr>players := (players w)(id1 \<mapsto> P1'),
             leaderboards := (leaderboards w)
               (m := zAdd (leaderboards w m)
                  (max 100 (js_round (real_of_int r1 + rating_delta r1 opp1 (spec_actual o1)))) id1)\<rparr>"
  have p2: "getPlayer id2 ?w1 = Some P2"
    using assms(1) assms(4) by (simp add: getPlayer_def)
  from updatePlayerRating_effect [OF p2 assms(5) assms(7), of now opp2]
  obtain P2' where
    u2: "updatePlayerRating now id2 m opp2 o2 ?w1
        = (Inr P2', ?w1\<lparr>players := (players ?w1)(id2 \<mapsto> P2'),
             leaderboards := (leaderboards ?w1)
               (m := zAdd (leaderboards ?w1 m)
                  (max 100 (js_round (real_of_int r2 + rating_delta r2 opp2 (spec_actual o2)))) id2)\<rparr>)"
    and r2: "ratings P2' = (ratings P2)(m \<mapsto> max 100 (js_round (real_of_int r2 + rating_delta r2 opp2 (spec_actual o2))))"
    and g2: "gamesPlayed (stats P2') = gamesPlayed (stats P2) + 1"
    by blast
  show ?thesis
    unfolding and_then_def u1 using assms(1) r1 g1 r2 g2
    by (simp add: u2 getPlayer_def)
qed

lemma endGame_rated_effect:
  assumes "fst (getGame gameId w) = Some gm"
    and "g_gameMode gm = ''chess''"
    and "g_players gm = [p1, p2]"
    and "gp_id p1 \<noteq> gp_id p2"
    and "getPlayer (gp_id p1) w = Some P1" "ratings P1 ''chess'' = Some r1"
    and "getPlayer (gp_id p2) w = Some P2" "ratings P2 ''chess'' = Some r2"
    and "gm' = gm\<lparr>g_status := finished, endedAt := Some now,
      result := Some \<lparr>winnerId = winner,
                       reason = (case rsn of None \<Rightarrow> ''completed'' | Some r \<Rightarrow> r)\<rparr>\<rparr>"
    and "a1 = (if winner = Some (gp_id p1) then 1 else if winner = Some (gp_id p2) then 0 else 1 / 2)"
    and "a2 = (if winner = Some (gp_id p1) then 0 else if winner = Some (gp_id p2) then 1 else 1 / 2)"
  shows "\<exists>w' P1' P2'. endGame now gameId winner rsn w = (Inr (), w')
      \<and> activeGames w' gameId = Some gm' \<and> games w' gameId = Some gm'
      \<and> game_updates w' = game_updates w @ [(gameId, game_ended (result gm'))]
      \<and> getPlayer (gp_id p1) w' = Some P1' \<and> getPlayer (gp_id p2) w' = Some P2'
      \<and> ratings P1' ''chess''
          = Some (max 100 (js_round (real_of_int r1 + rating_delta r1 (gp_rating p2) a1)))
      \<and> ratings P2' ''chess''
          = Some (max 100 (js_round (real_of_int r2 + rating_delta r2 (gp_rating p1) a2)))
      \<and> gamesPlayed (stats P1') = gamesPlayed (stats P1) + 1
      \<and> gamesPlayed (stats P2') = gamesPlayed (stats P2) + 1"
proof -
  from assms(1) obtain w1 where g: "getGame gameId w = (Some gm, w1)"
    and pw1: "players w1 = players w" and gu: "game_updates w1 = game_updates w"
    by (rule getGame_cases)
  define w2 where "w2 = w1\<lparr>activeGames := (activeGames w1)(gameId \<mapsto> gm')\<rparr>"
  have g1: "getPlayer (gp_id p1) w2 = Some P1" and g2: "getPlayer (gp_id p2) w2 = Some P2"
    using assms(5,7) pw1 by (simp_all add: w2_def getPlayer_def)
  have gu2: "game_updates w2 = game_updates w" by (simp add: w2_def gu)
  have v: "''win'' \<in> {''win'', ''loss'', ''draw''}" "''loss'' \<in> {''win'', ''loss'', ''draw''}"
    "''draw'' \<in> {''win'', ''loss'', ''draw''}" by simp_all
  have sa: "spec_actual ''win'' = 1" "spec_actual ''loss'' = 0" "spec_actual ''draw'' = 1 / 2"
    by (simp_all add: spec_actual_def)
  consider (first) "winner = Some (gp_id p1)"
    | (second) "winner \<noteq> Some (gp_id p1)" "winner = Some (gp_id p2)"
    | (neither) "winner \<noteq> Some (gp_id p1)" "winner \<noteq> Some (gp_id p2)"
    by blast
  then show ?thesis
  proof cases
    case first
    from two_updates [OF assms(4) g1 assms(6) g2 assms(8) v(1) v(2), of now "gp_rating p2" "gp_rating p1"]
    obtain P1' P2' w3 where
      s: "and_then (updatePlayerRating now (gp_id p1) ''chess'' (gp_rating p2) ''win'' w2)
            (updatePlayerRating now (gp_id p2) ''chess'' (gp_rating p1) ''loss'') = (Inr P2', w3)"
      and r: "getPlayer (gp_id p1) w3 = Some P1'" "getPlayer (gp_id p2) w3 = Some P2'"
        "ratings P1' ''chess'' = Some (max 100 (js_round (real_of_int r1 + rating_delta r1 (gp_rating p2) 1)))"
        "ratings P2' ''chess'' = Some (max 100 (js_round (real_of_int r2 + rating_delta r2 (gp_rating p1) 0)))"
        "gamesPlayed (stats P1') = gamesPlayed (stats P1) + 1"
        "gamesPlayed (stats P2') = gamesPlayed (stats P2) + 1"
        "game_updates w3 = game_updates w2"
      unfolding sa by blast
    have e: "endGame now gameId winner rsn w
        = (Inr (), emit_game_update gameId (game_ended (result gm')) (updateGame gameId gm' w3))"
      using assms(2,3) first s unfolding w2_def assms(9)
      by (simp add: endGame_def g Let_def ignore_result_def)
    show ?thesis
      using e r first gu2 assms(4)
      by (simp add: assms(10,11) updateGame_def emit_game_update_def getPlayer_def)
  next
    case second
    from two_updates [OF assms(4) [symmetric] g2 assms(8) g1 assms(6) v(1) v(2), of now "gp_rating p1" "gp_rating p2"]
    obtain P2' P1' w3 where
      s: "and_then (updatePlayerRating now (gp_id p2) ''chess'' (gp_rating p1) ''win'' w2)
            (updatePlayerRating now (gp_id p1) ''chess'' (gp_rating p2) ''loss'') = (Inr P1', w3)"
      and r: "getPlayer (gp_id p1) w3 = Some P1'" "getPlayer (gp_id p2) w3 = Some P2'"
        "ratings P1' ''chess'' = Some (max 100 (js_round (real_of_int r1 + rating_delta r1 (gp_rating p2) 0)))"
        "ratings P2' ''chess'' = Some (max 100 (js_round (real_of_int r2 + rating_delta r2 (gp_rating p1) 1)))"
        "gamesPlayed (stats P1') = gamesPlayed (stats P1) + 1"
        "gamesPlayed (stats P2') = gamesPlayed (stats P2) + 1"
        "game_updates w3 = game_updates w2"
      unfolding sa by blast
    have e: "endGame now gameId winner rsn w
        = (Inr (), emit_game_update gameId (game_ended (result gm')) (updateGame gameId gm' w3))"
      using assms(2,3) second s unfolding w2_def assms(9)
      by (simp add: endGame_def g Let_def ignore_result_def)
    show ?thesis
      using e r second gu2 assms(4)
      by (simp add: assms(10,11) updateGame_def emit_game_update_def getPlayer_def)
  next
    case neither
    from two_updates [OF assms(4) g1 assms(6) g2 assms(8) v(3) v(3), of now "gp_rating p2" "gp_rating p1"]
    obtain P1' P2' w3 where
      s: "and_then (updatePlayerRating now (gp_id p1) ''chess'' (gp_rating p2) ''draw'' w2)
            (updatePlayerRating now (gp_id p2) ''chess'' (gp_rating p1) ''draw'') = (Inr P2', w3)"
      and r: "getPlayer (gp_id p1) w3 = Some P1'" "getPlayer (gp_id p2) w3 = Some P2'"
        "ratings P1' ''chess'' = Some (max 100 (js_round (real_of_int r1 + rating_delta r1 (gp_rating p2) (1 / 2))))"
        "ratings P2' ''chess'' = Some (max 100 (js_round (real_of_int r2 + rating_delta r2 (gp_rating p1) (1 / 2))))"
        "gamesPlayed (stats P1') = gamesPlayed (stats P1) + 1"
        "gamesPlayed (stats P2') = gamesPlayed (stats P2) + 1"
        "game_updates w3 = game_updates w2"
      unfolding sa by blast
    have e: "endGame now gameId winner rsn w
        = (Inr (), emit_game_update gameId (game_ended (result gm')) (updateGame gameId gm' w3))"
      using assms(2,3) neither s unfolding w2_def assms(9)
      by (simp add: endGame_def g Let_def ignore_result_def)
    show ?thesis
      using e r neither gu2 assms(4)
      by (simp add: assms(10,11) updateGame_def emit_game_update_def getPlayer_def)
  qed
qed

lemma expected_equal: "calculateExpectedScore x x = 1 / 2"
  by (simp add: calculateExpectedScore_def)

lemmas example_defs = game_world_def two_players_def empty_world_def chess_game_def
  participant_def new_player_def initial_ratings_def no_stats_def

lemmas run_defs = endGame_def getGame_def updatePlayerRating_def getPlayer_def and_then_def
  ignore_result_def updateGame_def emit_game_update_def zAdd_def zRem_def eloK_def js_round_def
  expected_equal Let_def

lemma endGame_unrated_effect:
  assumes "fst (getGame gameId w) = Some gm"
    and "\<not> (g_gameMode gm = ''chess'' \<and> length (g_players gm) = 2)"
    and "gm' = gm\<lparr>g_status := finished, endedAt := Some now,
      result := Some \<lparr>winnerId = winner,
                       reason = (case rsn of None \<Rightarrow> ''completed'' | Some r \<Rightarrow> r)\<rparr>\<rparr>"
  shows "\<exists>w'. endGame now gameId winner rsn w = (Inr (), w')
      \<and> activeGames w' gameId = Some gm' \<and> games w' gameId = Some gm'
      \<and> game_updates w' = game_updates w @ [(gameId, game_ended (result gm'))]
      \<and> players w' = players w \<and> leaderboards w' = leaderboards w"
proof -
  from assms(1) obtain w1 where g: "getGame gameId w = (Some gm, w1)"
    and f: "players w1 = players w" "game_updates w1 = game_updates w"
      "leaderboards w1 = leaderboards w"
    by (rule getGame_cases)
  show ?thesis
    using assms(2) f unfolding assms(3)
    by (auto simp add: endGame_def g Let_def updateGame_def emit_game_update_def)
qed

lemma startGame_effect:
  assumes "fst (getGame gameId w) = Some gm"
    and "gm' = gm\<lparr>g_status := active, startedAt := Some now\<rparr>"
  shows "activeGames (startGame now gameId w) gameId = Some gm'
      \<and> games (startGame now gameId w) gameId = Some gm'
      \<and> game_updates (startGame now gameId w) = game_updates w @ [(gameId, game_started gm')]"
proof -
  from assms(1) obtain w1 where g: "getGame gameId w = (Some gm, w1)"
    and f: "game_updates w1 = game_updates w"
    by (rule getGame_cases)
  show ?thesis
    using f unfolding assms(2)
    by (simp add: startGame_def g Let_def updateGame_def emit_game_update_def)
qed

lemma startGame_missing:
  assumes "fst (getGame gameId w) = None"
  shows "startGame now gameId w = w"
  using assms by (auto simp add: startGame_def getGame_def split: option.splits)

lemma updatePlayerRating_activeGames:
  "updatePlayerRating now p m opp r (w\<lparr>activeGames := a\<rparr>)
     = (fst (updatePlayerRating now p m opp r w),
        (snd (updatePlayerRating now p m opp r w))\<lparr>activeGames := a\<rparr>)"
  by (simp add: updatePlayerRating_def getPlayer_def Let_def split: option.splits)

lemma two_updates_activeGames:
  "and_then (updatePlayerRating now p m opp r (w\<lparr>activeGames := a\<rparr>))
       (updatePlayerRating now p' m' opp' r')
     = (fst (and_then (updatePlayerRating now p m opp r w) (updatePlayerRating now p' m' opp' r')),
        (snd (and_then (updatePlayerRating now p m opp r w) (updatePlayerRating now p' m' opp' r')))
          \<lparr>activeGames := a\<rparr>)"
proof (cases "updatePlayerRating now p m opp r w")
  case (Pair x w1)
  then show ?thesis
    by (cases x) (simp_all add: and_then_def updatePlayerRating_activeGames)
qed

lemma endGame_draw_branch:
  assumes "fst (getGame gameId w) = Some gm"
    and "g_gameMode gm = ''chess''"
    and "g_players gm = [p1, p2]"
    and "winner \<noteq> Some (gp_id p1)" "winner \<noteq> Some (gp_id p2)"
    and "D = and_then (updatePlayerRating now (gp_id p1) ''chess'' (gp_rating p2) ''draw'' w)
                (updatePlayerRating now (gp_id p2) ''chess'' (gp_rating p1) ''draw'')"
  shows "fst (endGame now gameId winner rsn w) = fst (ignore_result D)
      \<and> players (snd (endGame now gameId winner rsn w)) = players (snd D)
      \<and> leaderboards (snd (endGame now gameId winner rsn w)) = leaderboards (snd D)"
proof -
  from assms(1) have "getGame gameId w = (Some gm, w)
      \<or> getGame gameId w = (Some gm, w\<lparr>activeGames := (activeGames w)(gameId \<mapsto> gm)\<rparr>)"
    by (auto simp add: getGame_def split: option.splits)
  then show ?thesis
  proof
    assume g: "getGame gameId w = (Some gm, w)"
    show ?thesis
      using assms(2-5) unfolding assms(6)
      by (cases "and_then (updatePlayerRating now (gp_id p1) ''chess'' (gp_rating p2) ''draw'' w)
                (updatePlayerRating now (gp_id p2) ''chess'' (gp_rating p1) ''draw'')")
        (auto simp add: endGame_def g Let_def two_updates_activeGames ignore_result_def
          updateGame_def emit_game_update_def split: sum.splits)
  next
    assume g: "getGame gameId w = (Some gm, w\<lparr>activeGames := (activeGames w)(gameId \<mapsto> gm)\<rparr>)"
    show ?thesis
      using assms(2-5) unfolding assms(6)
      by (cases "and_then (updatePlayerRating now (gp_id p1) ''chess'' (gp_rating p2) ''draw'' w)
                (updatePlayerRating now (gp_id p2) ''chess'' (gp_rating p1) ''draw'')")
        (auto simp add: endGame_def g Let_def two_updates_activeGames ignore_result_def
          updateGame_def emit_game_update_def split: sum.splits)
  qed
qed

lemma after_first_end_game: "fst (getGame ''g1'' after_first_end) = Some finished_game"
  by (simp add: after_first_end_def finished_game_def example_defs run_defs)

lemma after_first_end_players:
  "getPlayer ''alice'' after_first_end = Some (the (players after_first_end ''alice''))"
  "getPlayer ''bob'' after_first_end = Some (the (players after_first_end ''bob''))"
  "ratings (the (players after_first_end ''alice'')) ''chess'' = Some 1000"
  "ratings (the (players after_first_end ''bob'')) ''chess'' = Some 1000"
  "gamesPlayed (stats (the (players after_first_end ''alice''))) = 1"
  "gamesPlayed (stats (the (players after_first_end ''bob''))) = 1"
  "game_updates after_first_end
     = [(''g1'', game_ended (Some \<lparr>winnerId = None, reason = ''completed''\<rparr>))]"
  by (simp_all add: after_first_end_def example_defs run_defs)

lemma rating_delta_equal:
  "rating_delta r r 1 = 16" "rating_delta r r 0 = - 16" "rating_delta r r (1 / 2) = 0"
  by (simp_all add: rating_delta_def eloK_def expected_equal)

lemma js_round_numeral [simp]: "js_round (numeral n) = numeral n"
  using js_round_of_int [of "numeral n"] by simp

lemma updatePlayerRating_keeps_activeGames:
  "activeGames (snd (updatePlayerRating now p m opp r w)) = activeGames w"
  by (simp add: updatePlayerRating_def Let_def split: option.splits)

lemma two_updates_keep_activeGames:
  "activeGames (snd (and_then (updatePlayerRating now p m opp r w)
                       (updatePlayerRating now p' m' opp' r'))) = activeGames w"
proof (cases "updatePlayerRating now p m opp r w")
  case (Pair x w1)
  then have "activeGames w1 = activeGames w"
    using updatePlayerRating_keeps_activeGames [of now p m opp r w] by simp
  then show ?thesis using Pair
    by (cases x) (simp_all add: and_then_def updatePlayerRating_keeps_activeGames)
qed

lemma ignore_result_snd: "snd (ignore_result r) = snd r"
  by (cases r, cases "fst r") (auto simp add: ignore_result_def)

lemma updatePlayerRating_activeGamesD:
  "updatePlayerRating now p m opp r w = (x, w') \<Longrightarrow> activeGames w' = activeGames w"
  using updatePlayerRating_keeps_activeGames [of now p m opp r w] by simp

lemma endGame_sets_finished:
  assumes "fst (getGame gameId w) = Some gm"
  shows "activeGames (snd (endGame now gameId winner rsn w)) gameId
     = Some (gm\<lparr>g_status := finished, endedAt := Some now,
          result := Some \<lparr>winnerId = winner,
                       reason = (case rsn of None \<Rightarrow> ''completed'' | Some r \<Rightarrow> r)\<rparr>\<rparr>)"
proof -
  from assms obtain w1 where g: "getGame gameId w = (Some gm, w1)"
    by (rule getGame_cases)
  show ?thesis
    by (auto simp add: endGame_def g Let_def ignore_result_def and_then_def updateGame_def
        emit_game_update_def split: sum.splits prod.splits
        dest!: updatePlayerRating_activeGamesD)
qed

lemma getGame_two:
  assumes "fst (getGame gameId w) = Some gm"
  shows "getGame gameId w = (Some gm, w)
      \<or> getGame gameId w = (Some gm, w\<lparr>activeGames := (activeGames w)(gameId \<mapsto> gm)\<rparr>)"
  using assms by (auto simp add: getGame_def split: option.splits)

lemma endGame_status_blind:
  assumes "fst (getGame gameId w) = Some gm"
  shows "endGame now gameId winner rsn
           (w\<lparr>activeGames := (activeGames w)
                 (gameId \<mapsto> gm\<lparr>g_status := s, endedAt := e, result := r\<rparr>)\<rparr>)
         = endGame now gameId winner rsn w"
proof -
  let ?v = "w\<lparr>activeGames := (activeGames w)
                 (gameId \<mapsto> gm\<lparr>g_status := s, endedAt := e, result := r\<rparr>)\<rparr>"
  have v: "getGame gameId ?v = (Some (gm\<lparr>g_status := s, endedAt := e, result := r\<rparr>), ?v)"
    by (simp add: getGame_def)
  from getGame_two [OF assms] show ?thesis
  proof
    assume g: "getGame gameId w = (Some gm, w)"
    show ?thesis by (simp add: endGame_def g v)
  next
    assume g: "getGame gameId w = (Some gm, w\<lparr>activeGames := (activeGames w)(gameId \<mapsto> gm)\<rparr>)"
    show ?thesis by (simp add: endGame_def g v)
  qed
qed

lemma updatePlayerRating_frame:
  "updatePlayerRating now p m opp r w = (x, w')
   \<Longrightarrow> games w' = games w \<and> game_updates w' = game_updates w"
  by (auto simp add: updatePlayerRating_def Let_def split: option.splits if_splits)

lemma two_updates_frame:
  "and_then (updatePlayerRating now p m opp r w) (updatePlayerRating now p' m' opp' r') = (x, w')
   \<Longrightarrow> games w' = games w \<and> game_updates w' = game_updates w"
proof -
  assume a: "and_then (updatePlayerRating now p m opp r w) (updatePlayerRating now p' m' opp' r')
      = (x, w')"
  obtain y w1 where u: "updatePlayerRating now p m opp r w = (y, w1)"
    by (cases "updatePlayerRating now p m opp r w")
  note f1 = updatePlayerRating_frame [OF u]
  show ?thesis
  proof (cases y)
    case (Inl e)
    with a u have "w' = w1" by (simp add: and_then_def)
    with f1 show ?thesis by simp
  next
    case (Inr pl)
    with a u have "updatePlayerRating now p' m' opp' r' w1 = (x, w')" by (simp add: and_then_def)
    from updatePlayerRating_frame [OF this] f1 show ?thesis by simp
  qed
qed

lemma endGame_store_copy:
  assumes "fst (getGame gameId w) = Some gm"
    and "R = \<lparr>winnerId = winner, reason = (case rsn of None \<Rightarrow> ''completed'' | Some r \<Rightarrow> r)\<rparr>"
  shows "(fst (endGame now gameId winner rsn w) = Inr ()
           \<longrightarrow> games (snd (endGame now gameId winner rsn w)) gameId
                 = Some (gm\<lparr>g_status := finished, endedAt := Some now, result := Some R\<rparr>)
             \<and> game_updates (snd (endGame now gameId winner rsn w))
                 = game_updates w @ [(gameId, game_ended (Some R))])
       \<and> (\<forall>e. fst (endGame now gameId winner rsn w) = Inl e
           \<longrightarrow> games (snd (endGame now gameId winner rsn w)) = games w
             \<and> game_updates (snd (endGame now gameId winner rsn w)) = game_updates w)"
proof -
  from assms(1) obtain w1 where g: "getGame gameId w = (Some gm, w1)"
    and f: "game_updates w1 = game_updates w"
    by (rule getGame_cases)
  have f2: "games w1 = games w"
    using g by (auto simp add: getGame_def split: option.splits)
  show ?thesis
    unfolding assms(2)
    using f f2
    by (auto simp add: endGame_def g Let_def ignore_result_def updateGame_def
        emit_game_update_def split: sum.splits prod.splits
        dest!: two_updates_frame)
qed

lemma endGame_branches:
  assumes "fst (getGame gameId w) = Some gm"
    and "g_gameMode gm = ''chess''"
    and "g_players gm = [p1, p2]"
    and "D = (if winner = Some (gp_id p1)
              then and_then (updatePlayerRating now (gp_id p1) ''chess'' (gp_rating p2) ''win'' w)
                     (updatePlayerRating now (gp_id p2) ''chess'' (gp_rating p1) ''loss'')
              else if winner = Some (gp_id p2)
              then and_then (updatePlayerRating now (gp_id p2) ''chess'' (gp_rating p1) ''win'' w)
                     (updatePlayerRating now (gp_id p1) ''chess'' (gp_rating p2) ''loss'')
              else and_then (updatePlayerRating now (gp_id p1) ''chess'' (gp_rating p2) ''draw'' w)
                     (updatePlayerRating now (gp_id p2) ''chess'' (gp_rating p1) ''draw''))"
  shows "fst (endGame now gameId winner rsn w) = fst (ignore_result D)
      \<and> players (snd (endGame now gameId winner rsn w)) = players (snd D)
      \<and> leaderboards (snd (endGame now gameId winner rsn w)) = leaderboards (snd D)"
proof -
  define gm' where "gm' = gm\<lparr>g_status := finished, endedAt := Some now,
      result := Some \<lparr>winnerId = winner,
                       reason = (case rsn of None \<Rightarrow> ''completed'' | Some r \<Rightarrow> r)\<rparr>\<rparr>"
  define a where "a = (activeGames w)(gameId \<mapsto> gm')"
  define U where "U = (\<lambda>v. if winner = Some (gp_id p1)
              then and_then (updatePlayerRating now (gp_id p1) ''chess'' (gp_rating p2) ''win'' v)
                     (updatePlayerRating now (gp_id p2) ''chess'' (gp_rating p1) ''loss'')
              else if winner = Some (gp_id p2)
              then and_then (updatePlayerRating now (gp_id p2) ''chess'' (gp_rating p1) ''win'' v)
                     (updatePlayerRating now (gp_id p1) ''chess'' (gp_rating p2) ''loss'')
              else and_then (updatePlayerRating now (gp_id p1) ''chess'' (gp_rating p2) ''draw'' v)
                     (updatePlayerRating now (gp_id p2) ''chess'' (gp_rating p1) ''draw''))"
  have D: "D = U w" unfolding assms(4) U_def by (rule refl)
  have e: "endGame now gameId winner rsn w
      = endGame now gameId winner rsn (w\<lparr>activeGames := (activeGames w)(gameId \<mapsto> gm)\<rparr>)"
    using endGame_status_blind [OF assms(1), where s = "g_status gm" and e = "endedAt gm"
        and r = "result gm" and now = now and winner = winner and rsn = rsn]
    by simp
  have g: "getGame gameId (w\<lparr>activeGames := (activeGames w)(gameId \<mapsto> gm)\<rparr>)
      = (Some gm, w\<lparr>activeGames := (activeGames w)(gameId \<mapsto> gm)\<rparr>)"
    by (simp add: getGame_def)
  have b: "endGame now gameId winner rsn (w\<lparr>activeGames := (activeGames w)(gameId \<mapsto> gm)\<rparr>)
      = (case ignore_result (U (w\<lparr>activeGames := a\<rparr>)) of
           (Inl e, w3) \<Rightarrow> (Inl e, w3)
         | (Inr _, w3) \<Rightarrow>
             (Inr (), emit_game_update gameId (game_ended (result gm')) (updateGame gameId gm' w3)))"
    using assms(2,3) unfolding gm'_def a_def
    by (cases "winner = Some (gp_id p1)"; cases "winner = Some (gp_id p2)")
       (simp_all add: endGame_def g Let_def U_def cong: prod.case_cong sum.case_cong)
  have r: "U (w\<lparr>activeGames := a\<rparr>) = (fst (U w), (snd (U w))\<lparr>activeGames := a\<rparr>)"
    unfolding U_def
    by (cases "winner = Some (gp_id p1)"; cases "winner = Some (gp_id p2)")
       (simp_all add: two_updates_activeGames)
  show ?thesis
    unfolding e b r D
    by (cases "U w"; cases "fst (U w)")
       (simp_all add: ignore_result_def updateGame_def emit_game_update_def)
qed

section \<open>Sorted sets\<close>

lemma zAdd_own_entry: "filter (\<lambda>e. fst e = v) (zAdd z s v) = [(v, s)]"
  by (induction z) (auto simp add: zAdd_def zRem_def)

lemma zmembers_zAdd: "zmembers (zAdd z s v) = filter (\<lambda>x. x \<noteq> v) (zmembers z) @ [v]"
  by (simp add: zmembers_def zAdd_def zRem_def filter_map comp_def)

lemma zmembers_zRem: "zmembers (zRem z v) = filter (\<lambda>x. x \<noteq> v) (zmembers z)"
  by (simp add: zmembers_def zRem_def filter_map comp_def)

lemma set_zmembers_zAdd: "set (zmembers (zAdd z s v)) = insert v (set (zmembers z))"
  by (auto simp add: zmembers_zAdd)

lemma distinct_zmembers_zAdd: "distinct (zmembers z) \<Longrightarrow> distinct (zmembers (zAdd z s v))"
  by (simp add: zmembers_zAdd)

lemmas tick_defs = processMatchmaking_def tick_body_def store_call_def zRange_def zslice_def
  zsort_def zle_def findMatches_def getPlayersPerMatch_def arePlayersCompatible_def
  checkChessCompatibility_def prefs_of_def no_preferences_def truthy_def createMatch_def
  createGame_def publish_def zRem_def zmembers_def entry_def Let_def getGameConfig_def
  length_below_def length_is_def

section \<open>The matchmaking tick\<close>

lemma store_call_None [simp]: "store_call None = Inr None"
  by (simp add: store_call_def)

lemma store_call_budget: "store_call b = Inr b1 \<Longrightarrow> b = None \<longrightarrow> b1 = None"
  by (auto simp add: store_call_def)

lemma collect_None:
  "collect now gameMode None seed qs potentialMatch usedPlayers = (potentialMatch, usedPlayers)"
  by (cases qs) (simp_all add: length_below_def)

lemma group_players_None: "group_players now gameMode None ps usedPlayers = []"
  by (induction ps arbitrary: usedPlayers) (simp_all add: collect_None length_is_def)

lemma findMatches_prototype_key:
  "gameMode \<in> set object_prototype_keys \<Longrightarrow> findMatches now ps gameMode = []"
proof -
  assume "gameMode \<in> set object_prototype_keys"
  then have "getPlayersPerMatch gameMode = None"
    by (auto simp add: getPlayersPerMatch_def object_prototype_keys_def object_function_keys_def)
  then show ?thesis by (simp add: findMatches_def group_players_None)
qed

lemma remove_group_effect:
  "remove_group gameMode ps (b, w) = (r, w')
   \<Longrightarrow> match_found w' = match_found w
     \<and> set (zmembers (queues w' gameMode)) \<subseteq> set (zmembers (queues w gameMode))
     \<and> set (zmembers (queues w gameMode)) - set (zmembers (queues w' gameMode)) \<subseteq> set ps
     \<and> (\<forall>b'. r = Inr b' \<longrightarrow>
           set (zmembers (queues w' gameMode)) = set (zmembers (queues w gameMode)) - set ps)
     \<and> (b = None \<longrightarrow> r = Inr None)
     \<and> (\<forall>m. m \<noteq> gameMode \<longrightarrow> queues w' m = queues w m)
     \<and> channel w' = channel w"
proof (induction ps arbitrary: b w)
  case Nil
  then show ?case by auto
next
  case (Cons p ps)
  show ?case
  proof (cases "store_call b")
    case (Inl e)
    with Cons.prems show ?thesis by (auto simp add: store_call_def split: option.splits nat.splits)
  next
    case (Inr b1)
    let ?w1 = "w\<lparr>queues := (queues w)(gameMode := zRem (queues w gameMode) p)\<rparr>"
    from Cons.prems Inr have "remove_group gameMode ps (b1, ?w1) = (r, w')" by simp
    from Cons.IH [OF this]
    have ih: "match_found w' = match_found ?w1"
      "set (zmembers (queues w' gameMode)) \<subseteq> set (zmembers (queues ?w1 gameMode))"
      "set (zmembers (queues ?w1 gameMode)) - set (zmembers (queues w' gameMode)) \<subseteq> set ps"
      "\<forall>b'. r = Inr b' \<longrightarrow>
           set (zmembers (queues w' gameMode)) = set (zmembers (queues ?w1 gameMode)) - set ps"
      "b1 = None \<longrightarrow> r = Inr None"
      "\<forall>m. m \<noteq> gameMode \<longrightarrow> queues w' m = queues ?w1 m"
      "channel w' = channel ?w1"
      by blast+
    have q1: "set (zmembers (queues ?w1 gameMode)) = set (zmembers (queues w gameMode)) - {p}"
      by (auto simp add: zmembers_zRem)
    have b1: "b = None \<longrightarrow> b1 = None" using Inr by (rule store_call_budget)
    show ?thesis using ih b1 unfolding q1 by auto
  qed
qed

lemma createMatch_effect:
  "createMatch now gameId ps gameMode (b, w) = (r, w')
   \<Longrightarrow> queues w' = queues w \<and> channel w' = channel w
     \<and> (\<forall>e. r = Inl e \<longrightarrow>
          match_found w' = match_found w
          \<or> match_found w' = match_found w
            @ [\<lparr>m_gameId = gameId, m_players = ps, m_gameMode = gameMode, m_createdAt = now\<rparr>])
     \<and> (\<forall>b'. r = Inr b' \<longrightarrow>
          match_found w' = match_found w
            @ [\<lparr>m_gameId = gameId, m_players = ps, m_gameMode = gameMode, m_createdAt = now\<rparr>])
     \<and> (b = None \<and> channel w \<and> gameMode \<notin> set object_function_keys \<longrightarrow> r = Inr None)"
  by (auto simp add: createMatch_def createGame_def getGameConfig_def publish_def Let_def
      store_call_def split: option.splits nat.splits if_splits)

lemma commit_matches_effect:
  "commit_matches now uuid k gameMode ms (b, w) = (r, w')
   \<Longrightarrow> \<exists>X. match_found w' = match_found w @ X
     \<and> map m_players X = take (length X) ms
     \<and> set (zmembers (queues w' gameMode)) \<subseteq> set (zmembers (queues w gameMode))
     \<and> (\<forall>e \<in> set (zmembers (queues w gameMode)) - set (zmembers (queues w' gameMode)).
           \<exists>m \<in> set X. e \<in> set (m_players m))
     \<and> (\<forall>b'. r = Inr b' \<longrightarrow>
           (\<forall>m \<in> set X. \<forall>p \<in> set (m_players m). p \<notin> set (zmembers (queues w' gameMode)))
           \<and> length X = length ms)
     \<and> (b = None \<and> channel w \<and> (gameMode \<notin> set object_function_keys \<or> ms = [])
          \<longrightarrow> r = Inr None)
     \<and> (\<forall>m. m \<noteq> gameMode \<longrightarrow> queues w' m = queues w m)
     \<and> channel w' = channel w"
proof (induction ms arbitrary: k b w)
  case Nil
  then show ?case by auto
next
  case (Cons g gs)
  obtain r1 w1 where c: "createMatch now (uuid k) g gameMode (b, w) = (r1, w1)"
    by (cases "createMatch now (uuid k) g gameMode (b, w)")
  let ?md = "\<lparr>m_gameId = uuid k, m_players = g, m_gameMode = gameMode, m_createdAt = now\<rparr>"
  from createMatch_effect [OF c]
  have ce: "queues w1 = queues w" "channel w1 = channel w"
    "\<forall>e. r1 = Inl e \<longrightarrow>
       match_found w1 = match_found w \<or> match_found w1 = match_found w @ [?md]"
    "\<forall>b'. r1 = Inr b' \<longrightarrow> match_found w1 = match_found w @ [?md]"
    "b = None \<and> channel w \<and> gameMode \<notin> set object_function_keys \<longrightarrow> r1 = Inr None"
    by blast+
  show ?case
  proof (cases r1)
    case (Inl e)
    with Cons.prems c have rw: "r = Inl e" "w' = w1" by auto
    from ce(3) Inl have "match_found w1 = match_found w \<or> match_found w1 = match_found w @ [?md]"
      by blast
    then show ?thesis
    proof
      assume m: "match_found w1 = match_found w"
      have n: "\<not> (b = None \<and> channel w \<and> (gameMode \<notin> set object_function_keys \<or> g # gs = []))"
        using ce(5) Inl by auto
      show ?thesis using rw m ce(1,2) n by (intro exI [of _ "[]"]) simp
    next
      assume m: "match_found w1 = match_found w @ [?md]"
      have n: "\<not> (b = None \<and> channel w \<and> (gameMode \<notin> set object_function_keys \<or> g # gs = []))"
        using ce(5) Inl by auto
      show ?thesis using rw m ce(1,2) n by (intro exI [of _ "[?md]"]) simp
    qed
  next
    case (Inr b1)
    from ce Inr have m1: "match_found w1 = match_found w @ [?md]" and q1: "queues w1 = queues w"
      and n1: "b = None \<and> channel w \<and> gameMode \<notin> set object_function_keys \<longrightarrow> b1 = None"
      and c1: "channel w1 = channel w"
      by auto
    obtain r2 w2 where g2: "remove_group gameMode g (b1, w1) = (r2, w2)"
      by (cases "remove_group gameMode g (b1, w1)")
    from remove_group_effect [OF g2]
    have re: "match_found w2 = match_found w1"
      "set (zmembers (queues w2 gameMode)) \<subseteq> set (zmembers (queues w1 gameMode))"
      "set (zmembers (queues w1 gameMode)) - set (zmembers (queues w2 gameMode)) \<subseteq> set g"
      "\<forall>b'. r2 = Inr b' \<longrightarrow>
           set (zmembers (queues w2 gameMode)) = set (zmembers (queues w1 gameMode)) - set g"
      "b1 = None \<longrightarrow> r2 = Inr None"
      "\<forall>m. m \<noteq> gameMode \<longrightarrow> queues w2 m = queues w1 m"
      "channel w2 = channel w1"
      by blast+
    show ?thesis
    proof (cases r2)
      case (Inl e)
      with Cons.prems c Inr g2 have rw: "r = Inl e" "w' = w2" by auto
      have n: "\<not> (b = None \<and> channel w \<and> (gameMode \<notin> set object_function_keys \<or> g # gs = []))"
        using n1 re(5) Inl by auto
      show ?thesis
        using rw re m1 q1 c1 n by (intro exI [of _ "[?md]"]) auto
    next
      case b2: (Inr b2)
      with Cons.prems c Inr g2
      have "commit_matches now uuid (Suc k) gameMode gs (b2, w2) = (r, w')" by simp
      from Cons.IH [OF this] obtain X where
        ih: "match_found w' = match_found w2 @ X"
        "map m_players X = take (length X) gs"
        "set (zmembers (queues w' gameMode)) \<subseteq> set (zmembers (queues w2 gameMode))"
        "\<forall>e \<in> set (zmembers (queues w2 gameMode)) - set (zmembers (queues w' gameMode)).
           \<exists>m \<in> set X. e \<in> set (m_players m)"
        "\<forall>b'. r = Inr b' \<longrightarrow>
           (\<forall>m \<in> set X. \<forall>p \<in> set (m_players m). p \<notin> set (zmembers (queues w' gameMode)))
           \<and> length X = length gs"
        "b2 = None \<and> channel w2 \<and> (gameMode \<notin> set object_function_keys \<or> gs = [])
           \<longrightarrow> r = Inr None"
        "\<forall>m. m \<noteq> gameMode \<longrightarrow> queues w' m = queues w2 m"
        "channel w' = channel w2"
        by (elim exE conjE) (rule that; assumption)
      have q2: "set (zmembers (queues w2 gameMode)) = set (zmembers (queues w gameMode)) - set g"
        using re(4) b2 q1 by simp
      have n2: "b = None \<and> channel w \<and> gameMode \<notin> set object_function_keys \<longrightarrow> b2 = None"
        using n1 re(5) b2 by auto
      have a1: "match_found w' = match_found w @ (?md # X)" using ih(1) re(1) m1 by simp
      have a2: "map m_players (?md # X) = take (length (?md # X)) (g # gs)"
        using ih(2) by simp
      have a3: "set (zmembers (queues w' gameMode)) \<subseteq> set (zmembers (queues w gameMode))"
        using ih(3) q2 by auto
      have a4: "\<forall>e \<in> set (zmembers (queues w gameMode)) - set (zmembers (queues w' gameMode)).
           \<exists>m \<in> set (?md # X). e \<in> set (m_players m)"
      proof
        fix e assume e: "e \<in> set (zmembers (queues w gameMode)) - set (zmembers (queues w' gameMode))"
        show "\<exists>m \<in> set (?md # X). e \<in> set (m_players m)"
        proof (cases "e \<in> set g")
          case True
          then show ?thesis by simp
        next
          case False
          with e q2 have "e \<in> set (zmembers (queues w2 gameMode)) - set (zmembers (queues w' gameMode))"
            by auto
          with ih(4) show ?thesis by auto
        qed
      qed
      have a5: "\<forall>b'. r = Inr b' \<longrightarrow>
           (\<forall>m \<in> set (?md # X). \<forall>p \<in> set (m_players m). p \<notin> set (zmembers (queues w' gameMode)))
           \<and> length (?md # X) = length (g # gs)"
        using ih(5) ih(3) q2 by auto
      have a6: "b = None \<and> channel w \<and> (gameMode \<notin> set object_function_keys \<or> g # gs = [])
          \<longrightarrow> r = Inr None"
        using n2 ih(6) re(7) c1 by simp
      have a7: "\<forall>m. m \<noteq> gameMode \<longrightarrow> queues w' m = queues w m"
        using ih(7) re(6) q1 by simp
      have a8: "channel w' = channel w" using ih(8) re(7) c1 by simp
      show ?thesis by (rule exI [of _ "?md # X"]) (intro conjI a1 a2 a3 a4 a5 a6 a7 a8)
    qed
  qed
qed

section \<open>Claims\<close>

text \<open>
  C4. For numeric ratings, an outcome among win, loss and draw, and \<open>kFactor\<close> given or
  left to its default 32, \<^verbatim>\<open>calculateNewRating\<close> returns the specification's
  max(100, round(player + k (actual - expected))), which is at least 100. An outcome
  outside the three, or a rating that is not a number, fails with \<open>InvalidInput\<close>. The
  rating that \<^verbatim>\<open>updatePlayerRating\<close> stores is the same formula with k = 32, so it is at
  least 100, and an unknown outcome fails there with \<open>InvalidInput\<close> and writes nothing.
  This holds for all real ratings, in particular for those of at least 100.
\<close>

theorem rating_update_formula:
  "(outcome \<in> {''win'', ''loss'', ''draw''} \<longrightarrow>
      calculateNewRating (Num p) (Num opp) outcome k
        = Inr (Some (spec_rating p opp outcome (case k of None \<Rightarrow> 32 | Some k' \<Rightarrow> k')))
      \<and> 100 \<le> spec_rating p opp outcome (case k of None \<Rightarrow> 32 | Some k' \<Rightarrow> k'))
   \<and> (bad \<notin> {''win'', ''loss'', ''draw''} \<longrightarrow>
        (\<exists>msg. calculateNewRating a b bad k = Inl (InvalidInput msg)))
   \<and> (\<not> (is_number a' \<and> is_number b') \<longrightarrow>
        (\<exists>msg. calculateNewRating a' b' res k = Inl (InvalidInput msg)))
   \<and> (getPlayer playerId w = Some pl \<and> ratings pl gameMode = Some cur
        \<and> outcome \<in> {''win'', ''loss'', ''draw''} \<longrightarrow>
        (\<exists>pl' w'. updatePlayerRating now playerId gameMode oppR outcome w = (Inr pl', w')
            \<and> getPlayer playerId w' = Some pl'
            \<and> ratings pl' gameMode
                = Some (spec_rating (real_of_int cur) (real_of_int oppR) outcome 32)
            \<and> 100 \<le> spec_rating (real_of_int cur) (real_of_int oppR) outcome 32))
   \<and> (getPlayer playerId w = Some pl \<and> bad \<notin> {''win'', ''loss'', ''draw''} \<longrightarrow>
        updatePlayerRating now playerId gameMode oppR bad w
          = (Inl (InvalidInput ''Invalid result''), w))"
proof (intro conjI impI)
  assume "outcome \<in> {''win'', ''loss'', ''draw''}"
  then show "calculateNewRating (Num p) (Num opp) outcome k
        = Inr (Some (spec_rating p opp outcome (case k of None \<Rightarrow> 32 | Some k' \<Rightarrow> k')))"
    by (rule calculateNewRating_valid)
next
  show "100 \<le> spec_rating p opp outcome (case k of None \<Rightarrow> 32 | Some k' \<Rightarrow> k')"
    by (rule spec_rating_floor)
next
  assume "bad \<notin> {''win'', ''loss'', ''draw''}"
  then show "\<exists>msg. calculateNewRating a b bad k = Inl (InvalidInput msg)"
    by (rule calculateNewRating_bad_outcome)
next
  assume "\<not> (is_number a' \<and> is_number b')"
  then show "\<exists>msg. calculateNewRating a' b' res k = Inl (InvalidInput msg)"
    using calculateNewRating_not_number by blast
next
  assume h: "getPlayer playerId w = Some pl \<and> ratings pl gameMode = Some cur
        \<and> outcome \<in> {''win'', ''loss'', ''draw''}"
  then show "\<exists>pl' w'. updatePlayerRating now playerId gameMode oppR outcome w = (Inr pl', w')
            \<and> getPlayer playerId w' = Some pl'
            \<and> ratings pl' gameMode
                = Some (spec_rating (real_of_int cur) (real_of_int oppR) outcome 32)
            \<and> 100 \<le> spec_rating (real_of_int cur) (real_of_int oppR) outcome 32"
    using updatePlayerRating_valid [of playerId w pl gameMode cur outcome now oppR]
      spec_rating_floor by blast
next
  assume "getPlayer playerId w = Some pl \<and> bad \<notin> {''win'', ''loss'', ''draw''}"
  then show "updatePlayerRating now playerId gameMode oppR bad w
          = (Inl (InvalidInput ''Invalid result''), w)"
    using updatePlayerRating_bad_outcome by blast
qed

theorem rating_update_formula_witness:
  "calculateNewRating (Num 1000) (Num 1000) ''win'' None = Inr (Some 1016)
   \<and> (\<exists>msg. calculateNewRating (Num 1000) (Num 1000) ''victory'' None = Inl (InvalidInput msg))
   \<and> (\<exists>msg. calculateNewRating (Str ''high'') (Num 1000) ''win'' None = Inl (InvalidInput msg))
   \<and> (\<exists>pl' w'. updatePlayerRating 5 ''alice'' ''chess'' 1000 ''win'' two_players = (Inr pl', w')
         \<and> getPlayer ''alice'' w' = Some pl' \<and> ratings pl' ''chess'' = Some 1016)
   \<and> updatePlayerRating 5 ''alice'' ''chess'' 1000 ''victory'' two_players
        = (Inl (InvalidInput ''Invalid result''), two_players)"
proof -
  have h1: "''win'' \<in> {''win'', ''loss'', ''draw''}" by simp
  have h2: "''victory'' \<notin> {''win'', ''loss'', ''draw''}" by simp
  have h3: "\<not> (is_number (Str ''high'') \<and> is_number (Num 1000))" by simp
  have h4: "getPlayer ''alice'' two_players = Some (new_player ''alice'')"
    by (simp add: getPlayer_def two_players_def empty_world_def)
  have h5: "ratings (new_player ''alice'') ''chess'' = Some 1000"
    by (simp add: new_player_def initial_ratings_def)
  have v: "spec_rating 1000 1000 ''win'' 32 = 1016"
    by (simp add: spec_rating_def spec_actual_def js_round_def)
  show ?thesis
    using rating_update_formula [of "''win''" 1000 1000 None "''victory''" "Num 1000" "Num 1000"
        "Str ''high''" "Num 1000" "''win''" "''alice''" two_players "new_player ''alice''"
        "''chess''" 1000 5 1000]
      h1 h2 h3 h4 h5 v
    by simp
qed

text \<open>
  C8. A rated two-player chess game that the first or the second participant wins, each
  participant's stored rating being the rating cached in the match: \<^verbatim>\<open>endGame\<close> stores
  for each the rounded and floored sum of the old rating and a change; the two changes,
  before rounding and the floor, add up to 0, and each is at most 32 in absolute value.
  The stored rating of a participant rated at least 100 also moves by at most 32.
\<close>

theorem elo_symmetry:
  assumes "fst (getGame gameId w) = Some gm"
    and "g_gameMode gm = ''chess''"
    and "g_players gm = [pw, pl] \<or> g_players gm = [pl, pw]"
    and "gp_id pw \<noteq> gp_id pl"
    and "getPlayer (gp_id pw) w = Some W" "ratings W ''chess'' = Some (gp_rating pw)"
    and "getPlayer (gp_id pl) w = Some L" "ratings L ''chess'' = Some (gp_rating pl)"
  shows "\<exists>w' W' L'. endGame now gameId (Some (gp_id pw)) rsn w = (Inr (), w')
      \<and> getPlayer (gp_id pw) w' = Some W' \<and> getPlayer (gp_id pl) w' = Some L'
      \<and> ratings W' ''chess''
          = Some (max 100 (js_round (real_of_int (gp_rating pw)
                                      + rating_delta (gp_rating pw) (gp_rating pl) 1)))
      \<and> ratings L' ''chess''
          = Some (max 100 (js_round (real_of_int (gp_rating pl)
                                      + rating_delta (gp_rating pl) (gp_rating pw) 0)))
      \<and> rating_delta (gp_rating pw) (gp_rating pl) 1
          + rating_delta (gp_rating pl) (gp_rating pw) 0 = 0
      \<and> \<bar>rating_delta (gp_rating pw) (gp_rating pl) 1\<bar> \<le> 32
      \<and> \<bar>rating_delta (gp_rating pl) (gp_rating pw) 0\<bar> \<le> 32
      \<and> (100 \<le> gp_rating pw \<longrightarrow>
           \<bar>max 100 (js_round (real_of_int (gp_rating pw)
                                  + rating_delta (gp_rating pw) (gp_rating pl) 1))
            - gp_rating pw\<bar> \<le> 32)
      \<and> (100 \<le> gp_rating pl \<longrightarrow>
           \<bar>max 100 (js_round (real_of_int (gp_rating pl)
                                  + rating_delta (gp_rating pl) (gp_rating pw) 0))
            - gp_rating pl\<bar> \<le> 32)"
proof -
  have b0: "\<bar>rating_delta (gp_rating pw) (gp_rating pl) 1\<bar> \<le> 32"
    "\<bar>rating_delta (gp_rating pl) (gp_rating pw) 0\<bar> \<le> 32"
    using rating_delta_bound [of 1 "gp_rating pw" "gp_rating pl"]
      rating_delta_bound [of 0 "gp_rating pl" "gp_rating pw"]
    by simp_all
  have b: "rating_delta (gp_rating pw) (gp_rating pl) 1
          + rating_delta (gp_rating pl) (gp_rating pw) 0 = 0
      \<and> \<bar>rating_delta (gp_rating pw) (gp_rating pl) 1\<bar> \<le> 32
      \<and> \<bar>rating_delta (gp_rating pl) (gp_rating pw) 0\<bar> \<le> 32
      \<and> (100 \<le> gp_rating pw \<longrightarrow>
           \<bar>max 100 (js_round (real_of_int (gp_rating pw)
                                  + rating_delta (gp_rating pw) (gp_rating pl) 1))
            - gp_rating pw\<bar> \<le> 32)
      \<and> (100 \<le> gp_rating pl \<longrightarrow>
           \<bar>max 100 (js_round (real_of_int (gp_rating pl)
                                  + rating_delta (gp_rating pl) (gp_rating pw) 0))
            - gp_rating pl\<bar> \<le> 32)"
    using rating_delta_sum [of "gp_rating pw" "gp_rating pl"] b0
      stored_delta_bound [OF b0(1)] stored_delta_bound [OF b0(2)]
    by blast
  from assms(3) show ?thesis
  proof
    assume o: "g_players gm = [pw, pl]"
    from endGame_rated_effect [OF assms(1,2) o assms(4-8) refl refl refl,
        of now "Some (gp_id pw)" rsn]
    show ?thesis using b by auto
  next
    assume o: "g_players gm = [pl, pw]"
    from endGame_rated_effect [OF assms(1,2) o assms(4) [symmetric] assms(7,8,5,6) refl refl refl,
        of now "Some (gp_id pw)" rsn]
    show ?thesis using b assms(4) by auto
  qed
qed

theorem elo_symmetry_witness:
  "\<exists>w' W' L'. endGame 10 ''g1'' (Some ''alice'') None game_world = (Inr (), w')
      \<and> getPlayer ''alice'' w' = Some W' \<and> getPlayer ''bob'' w' = Some L'
      \<and> ratings W' ''chess'' = Some 1016 \<and> ratings L' ''chess'' = Some 984
      \<and> rating_delta 1000 1000 1 + rating_delta 1000 1000 0 = 0
      \<and> \<bar>rating_delta 1000 1000 1\<bar> \<le> 32 \<and> \<bar>rating_delta 1000 1000 0\<bar> \<le> 32"
proof -
  have 1: "fst (getGame ''g1'' game_world) = Some chess_game"
    by (simp add: getGame_def game_world_def)
  have 2: "g_gameMode chess_game = ''chess''" by (simp add: chess_game_def)
  have 3: "g_players chess_game = [participant ''alice'' 1000, participant ''bob'' 1000]
           \<or> g_players chess_game = [participant ''bob'' 1000, participant ''alice'' 1000]"
    by (simp add: chess_game_def)
  have 4: "gp_id (participant ''alice'' 1000) \<noteq> gp_id (participant ''bob'' 1000)"
    by (simp add: participant_def)
  have 5: "getPlayer (gp_id (participant ''alice'' 1000)) game_world = Some (new_player ''alice'')"
    by (simp add: getPlayer_def game_world_def two_players_def empty_world_def participant_def)
  have 6: "ratings (new_player ''alice'') ''chess'' = Some (gp_rating (participant ''alice'' 1000))"
    by (simp add: new_player_def initial_ratings_def participant_def)
  have 7: "getPlayer (gp_id (participant ''bob'' 1000)) game_world = Some (new_player ''bob'')"
    by (simp add: getPlayer_def game_world_def two_players_def empty_world_def participant_def)
  have 8: "ratings (new_player ''bob'') ''chess'' = Some (gp_rating (participant ''bob'' 1000))"
    by (simp add: new_player_def initial_ratings_def participant_def)
  have d: "rating_delta 1000 1000 1 = 16" "rating_delta 1000 1000 0 = - 16"
    by (simp_all add: rating_delta_def eloK_def expected_equal)
  have r: "js_round 1016 = 1016" "js_round 984 = 984"
    using js_round_of_int [of 1016] js_round_of_int [of 984] by simp_all
  from elo_symmetry [OF 1 2 3 4 5 6 7 8, of 10 None]
  show ?thesis by (simp add: participant_def d r)
qed

text \<open>
  C1, as the specification states it, fails: \<^verbatim>\<open>endGame\<close> does not look at the status.
  A match ended in a draw at time 10 is ended again at time 20 with a winner: the record
  gets the new time and result, and both ratings and game counters change again.
\<close>

theorem end_twice_counterexample:
  "g_status (the (activeGames after_first_end ''g1'')) = finished
   \<and> endedAt (the (activeGames after_first_end ''g1'')) = Some 10
   \<and> result (the (activeGames after_first_end ''g1''))
       = Some \<lparr>winnerId = None, reason = ''completed''\<rparr>
   \<and> ratings (the (players after_first_end ''alice'')) ''chess'' = Some 1000
   \<and> gamesPlayed (stats (the (players after_first_end ''alice''))) = 1
   \<and> g_status (the (activeGames after_second_end ''g1'')) = finished
   \<and> endedAt (the (activeGames after_second_end ''g1'')) = Some 20
   \<and> result (the (activeGames after_second_end ''g1''))
       = Some \<lparr>winnerId = Some ''alice'', reason = ''timeout''\<rparr>
   \<and> ratings (the (players after_second_end ''alice'')) ''chess'' = Some 1016
   \<and> ratings (the (players after_second_end ''bob'')) ''chess'' = Some 984
   \<and> gamesPlayed (stats (the (players after_second_end ''alice''))) = 2"
  by (simp add: after_second_end_def after_first_end_def example_defs run_defs)

text \<open>
  C1, amended. \<^verbatim>\<open>endGame\<close> never reads the status: on a finished match it returns and
  leaves the state that the same call gives when the service holds the match as active,
  with no \<open>endedAt\<close> and no \<open>result\<close>. The record in the in-memory map keeps the status
  \<open>finished\<close> and gets \<open>endedAt\<close> and \<open>result\<close> of the new call, whether or not the call
  throws. When the call returns, the store's copy is overwritten with that record and a
  \<open>game_ended\<close> update is emitted again; when it throws, the store's copy and the updates
  stay as they were. A match that is not a two-player chess match makes the call return
  with the player records and leaderboards unchanged. For a two-player chess match the two
  rating updates of the winner's branch are run again, in order: the call throws exactly
  when one of them does (with its error, as when a player's record is gone), and the
  player records and leaderboards are those the two updates leave, the first update's
  changes included when the second throws. When the two participants are different
  players, both stored with a chess rating, the call returns, both ratings are updated
  again and both game counters grow by one.
\<close>

theorem end_on_finished_match:
  assumes "fst (getGame gameId w) = Some gm" and "g_status gm = finished"
    and "res = endGame now gameId winner rsn w"
    and "R = \<lparr>winnerId = winner, reason = (case rsn of None \<Rightarrow> ''completed'' | Some r \<Rightarrow> r)\<rparr>"
    and "D = (if winner = Some (gp_id p1)
              then and_then (updatePlayerRating now (gp_id p1) ''chess'' (gp_rating p2) ''win'' w)
                     (updatePlayerRating now (gp_id p2) ''chess'' (gp_rating p1) ''loss'')
              else if winner = Some (gp_id p2)
              then and_then (updatePlayerRating now (gp_id p2) ''chess'' (gp_rating p1) ''win'' w)
                     (updatePlayerRating now (gp_id p1) ''chess'' (gp_rating p2) ''loss'')
              else and_then (updatePlayerRating now (gp_id p1) ''chess'' (gp_rating p2) ''draw'' w)
                     (updatePlayerRating now (gp_id p2) ''chess'' (gp_rating p1) ''draw''))"
  shows "endGame now gameId winner rsn
           (w\<lparr>activeGames := (activeGames w)
                 (gameId \<mapsto> gm\<lparr>g_status := active, endedAt := None, result := None\<rparr>)\<rparr>) = res
     \<and> activeGames (snd res) gameId = Some (gm\<lparr>endedAt := Some now, result := Some R\<rparr>)
     \<and> (fst res = Inr ()
          \<longrightarrow> games (snd res) gameId = Some (gm\<lparr>endedAt := Some now, result := Some R\<rparr>)
            \<and> game_updates (snd res) = game_updates w @ [(gameId, game_ended (Some R))])
     \<and> (\<forall>e. fst res = Inl e
          \<longrightarrow> games (snd res) = games w \<and> game_updates (snd res) = game_updates w)
     \<and> (\<not> (g_gameMode gm = ''chess'' \<and> length (g_players gm) = 2)
          \<longrightarrow> fst res = Inr () \<and> players (snd res) = players w
            \<and> leaderboards (snd res) = leaderboards w)
     \<and> (g_gameMode gm = ''chess'' \<and> g_players gm = [p1, p2]
          \<longrightarrow> fst res = fst (ignore_result D) \<and> players (snd res) = players (snd D)
            \<and> leaderboards (snd res) = leaderboards (snd D))
     \<and> (g_gameMode gm = ''chess'' \<and> g_players gm = [p1, p2] \<and> gp_id p1 \<noteq> gp_id p2
        \<and> getPlayer (gp_id p1) w = Some P1 \<and> ratings P1 ''chess'' = Some r1
        \<and> getPlayer (gp_id p2) w = Some P2 \<and> ratings P2 ''chess'' = Some r2
          \<longrightarrow> fst res = Inr ()
            \<and> (\<exists>P1' P2'. getPlayer (gp_id p1) (snd res) = Some P1'
                \<and> getPlayer (gp_id p2) (snd res) = Some P2'
                \<and> gamesPlayed (stats P1') = gamesPlayed (stats P1) + 1
                \<and> gamesPlayed (stats P2') = gamesPlayed (stats P2) + 1
                \<and> ratings P1' ''chess''
                    = Some (max 100 (js_round (real_of_int r1 + rating_delta r1 (gp_rating p2)
                         (if winner = Some (gp_id p1) then 1
                          else if winner = Some (gp_id p2) then 0 else 1 / 2))))
                \<and> ratings P2' ''chess''
                    = Some (max 100 (js_round (real_of_int r2 + rating_delta r2 (gp_rating p1)
                         (if winner = Some (gp_id p1) then 0
                          else if winner = Some (gp_id p2) then 1 else 1 / 2))))))"
proof -
  have st: "gm\<lparr>g_status := finished\<rparr> = gm" using assms(2) by simp
  have st': "gm\<lparr>g_status := finished, endedAt := Some now, result := Some R\<rparr>
      = gm\<lparr>endedAt := Some now, result := Some R\<rparr>"
    using assms(2) by simp
  have a: "endGame now gameId winner rsn
           (w\<lparr>activeGames := (activeGames w)
                 (gameId \<mapsto> gm\<lparr>g_status := active, endedAt := None, result := None\<rparr>)\<rparr>) = res"
    unfolding assms(3) by (rule endGame_status_blind [OF assms(1)])
  have b: "activeGames (snd res) gameId = Some (gm\<lparr>endedAt := Some now, result := Some R\<rparr>)"
    unfolding assms(3) using endGame_sets_finished [OF assms(1), of now winner rsn]
    by (simp add: assms(4) st' [unfolded assms(4)])
  note sc = endGame_store_copy [OF assms(1) assms(4), of now, folded assms(3), unfolded st']
  have c: "fst res = Inr ()
          \<longrightarrow> games (snd res) gameId = Some (gm\<lparr>endedAt := Some now, result := Some R\<rparr>)
            \<and> game_updates (snd res) = game_updates w @ [(gameId, game_ended (Some R))]"
    using sc by blast
  have c': "\<forall>e. fst res = Inl e
          \<longrightarrow> games (snd res) = games w \<and> game_updates (snd res) = game_updates w"
    using sc by blast
  have d: "\<not> (g_gameMode gm = ''chess'' \<and> length (g_players gm) = 2)
          \<longrightarrow> fst res = Inr () \<and> players (snd res) = players w
            \<and> leaderboards (snd res) = leaderboards w"
  proof
    assume n: "\<not> (g_gameMode gm = ''chess'' \<and> length (g_players gm) = 2)"
    from endGame_unrated_effect [OF assms(1) n refl, of now winner rsn]
    show "fst res = Inr () \<and> players (snd res) = players w
            \<and> leaderboards (snd res) = leaderboards w"
      unfolding assms(3) by auto
  qed
  have e: "g_gameMode gm = ''chess'' \<and> g_players gm = [p1, p2]
          \<longrightarrow> fst res = fst (ignore_result D) \<and> players (snd res) = players (snd D)
            \<and> leaderboards (snd res) = leaderboards (snd D)"
  proof
    assume h: "g_gameMode gm = ''chess'' \<and> g_players gm = [p1, p2]"
    then have h1: "g_gameMode gm = ''chess''" and h2: "g_players gm = [p1, p2]" by simp_all
    from endGame_branches [OF assms(1) h1 h2 assms(5), of rsn]
    show "fst res = fst (ignore_result D) \<and> players (snd res) = players (snd D)
            \<and> leaderboards (snd res) = leaderboards (snd D)"
      unfolding assms(3) .
  qed
  have f: "g_gameMode gm = ''chess'' \<and> g_players gm = [p1, p2] \<and> gp_id p1 \<noteq> gp_id p2
        \<and> getPlayer (gp_id p1) w = Some P1 \<and> ratings P1 ''chess'' = Some r1
        \<and> getPlayer (gp_id p2) w = Some P2 \<and> ratings P2 ''chess'' = Some r2
          \<longrightarrow> fst res = Inr ()
            \<and> (\<exists>P1' P2'. getPlayer (gp_id p1) (snd res) = Some P1'
                \<and> getPlayer (gp_id p2) (snd res) = Some P2'
                \<and> gamesPlayed (stats P1') = gamesPlayed (stats P1) + 1
                \<and> gamesPlayed (stats P2') = gamesPlayed (stats P2) + 1
                \<and> ratings P1' ''chess''
                    = Some (max 100 (js_round (real_of_int r1 + rating_delta r1 (gp_rating p2)
                         (if winner = Some (gp_id p1) then 1
                          else if winner = Some (gp_id p2) then 0 else 1 / 2))))
                \<and> ratings P2' ''chess''
                    = Some (max 100 (js_round (real_of_int r2 + rating_delta r2 (gp_rating p1)
                         (if winner = Some (gp_id p1) then 0
                          else if winner = Some (gp_id p2) then 1 else 1 / 2)))))"
  proof
    assume h: "g_gameMode gm = ''chess'' \<and> g_players gm = [p1, p2] \<and> gp_id p1 \<noteq> gp_id p2
        \<and> getPlayer (gp_id p1) w = Some P1 \<and> ratings P1 ''chess'' = Some r1
        \<and> getPlayer (gp_id p2) w = Some P2 \<and> ratings P2 ''chess'' = Some r2"
    then have k: "g_gameMode gm = ''chess''"
      "g_players gm = [p1, p2]" "gp_id p1 \<noteq> gp_id p2"
      "getPlayer (gp_id p1) w = Some P1" "ratings P1 ''chess'' = Some r1"
      "getPlayer (gp_id p2) w = Some P2" "ratings P2 ''chess'' = Some r2"
      by simp_all
    from endGame_rated_effect [OF assms(1) k refl refl refl, of now winner rsn]
    obtain w' P1' P2' where x: "endGame now gameId winner rsn w = (Inr (), w')"
      "getPlayer (gp_id p1) w' = Some P1'" "getPlayer (gp_id p2) w' = Some P2'"
      "ratings P1' ''chess''
          = Some (max 100 (js_round (real_of_int r1 + rating_delta r1 (gp_rating p2) (if winner = Some (gp_id p1) then 1 else if winner = Some (gp_id p2) then 0 else 1 / 2))))"
      "ratings P2' ''chess''
          = Some (max 100 (js_round (real_of_int r2 + rating_delta r2 (gp_rating p1) (if winner = Some (gp_id p1) then 0 else if winner = Some (gp_id p2) then 1 else 1 / 2))))"
      "gamesPlayed (stats P1') = gamesPlayed (stats P1) + 1"
      "gamesPlayed (stats P2') = gamesPlayed (stats P2) + 1"
      by (elim exE conjE) (rule that; assumption)
    have r1: "fst res = Inr ()" and r2: "snd res = w'" unfolding assms(3) x(1) by simp_all
    show "fst res = Inr ()
            \<and> (\<exists>P1' P2'. getPlayer (gp_id p1) (snd res) = Some P1'
                \<and> getPlayer (gp_id p2) (snd res) = Some P2'
                \<and> gamesPlayed (stats P1') = gamesPlayed (stats P1) + 1
                \<and> gamesPlayed (stats P2') = gamesPlayed (stats P2) + 1
                \<and> ratings P1' ''chess''
                    = Some (max 100 (js_round (real_of_int r1 + rating_delta r1 (gp_rating p2)
                         (if winner = Some (gp_id p1) then 1
                          else if winner = Some (gp_id p2) then 0 else 1 / 2))))
                \<and> ratings P2' ''chess''
                    = Some (max 100 (js_round (real_of_int r2 + rating_delta r2 (gp_rating p1)
                         (if winner = Some (gp_id p1) then 0
                          else if winner = Some (gp_id p2) then 1 else 1 / 2)))))"
      unfolding r2
      by (rule conjI [OF r1]) (intro exI [of _ P1'] exI [of _ P2'] conjI x(2,3,4,5,6,7))
  qed
  show ?thesis by (intro conjI a b c c' d e f)
qed

theorem end_on_finished_match_witness:
  "fst (endGame 20 ''g1'' (Some ''alice'') (Some ''timeout'') after_first_end) = Inr ()
   \<and> endGame 20 ''g1'' (Some ''alice'') (Some ''timeout'')
        (after_first_end\<lparr>activeGames := (activeGames after_first_end)
           (''g1'' \<mapsto> finished_game\<lparr>g_status := active, endedAt := None, result := None\<rparr>)\<rparr>)
       = endGame 20 ''g1'' (Some ''alice'') (Some ''timeout'') after_first_end
   \<and> activeGames (snd (endGame 20 ''g1'' (Some ''alice'') (Some ''timeout'') after_first_end)) ''g1''
       = Some (finished_game\<lparr>endedAt := Some 20,
                 result := Some \<lparr>winnerId = Some ''alice'', reason = ''timeout''\<rparr>\<rparr>)
   \<and> games (snd (endGame 20 ''g1'' (Some ''alice'') (Some ''timeout'') after_first_end)) ''g1''
       = Some (finished_game\<lparr>endedAt := Some 20,
                 result := Some \<lparr>winnerId = Some ''alice'', reason = ''timeout''\<rparr>\<rparr>)
   \<and> game_updates (snd (endGame 20 ''g1'' (Some ''alice'') (Some ''timeout'') after_first_end))
       = [(''g1'', game_ended (Some \<lparr>winnerId = None, reason = ''completed''\<rparr>)),
          (''g1'', game_ended (Some \<lparr>winnerId = Some ''alice'', reason = ''timeout''\<rparr>))]
   \<and> (\<exists>P1' P2'.
         getPlayer ''alice'' (snd (endGame 20 ''g1'' (Some ''alice'') (Some ''timeout'') after_first_end))
           = Some P1'
       \<and> getPlayer ''bob'' (snd (endGame 20 ''g1'' (Some ''alice'') (Some ''timeout'') after_first_end))
           = Some P2'
       \<and> gamesPlayed (stats P1') = 2 \<and> gamesPlayed (stats P2') = 2
       \<and> ratings P1' ''chess'' = Some 1016 \<and> ratings P2' ''chess'' = Some 984)
   \<and> fst (endGame 20 ''g2'' None None rts_world) = Inr ()
   \<and> activeGames (snd (endGame 20 ''g2'' None None rts_world)) ''g2''
       = Some (rts_game\<lparr>endedAt := Some 20\<rparr>)
   \<and> players (snd (endGame 20 ''g2'' None None rts_world)) = players rts_world
   \<and> fst (endGame 20 ''g1'' (Some ''alice'') (Some ''timeout'') expired_world)
       = Inl (NotFound ''Player not found'')
   \<and> activeGames (snd (endGame 20 ''g1'' (Some ''alice'') (Some ''timeout'') expired_world)) ''g1''
       = Some (finished_game\<lparr>endedAt := Some 20,
                 result := Some \<lparr>winnerId = Some ''alice'', reason = ''timeout''\<rparr>\<rparr>)
   \<and> games (snd (endGame 20 ''g1'' (Some ''alice'') (Some ''timeout'') expired_world)) ''g1''
       = Some finished_game
   \<and> game_updates (snd (endGame 20 ''g1'' (Some ''alice'') (Some ''timeout'') expired_world))
       = [(''g1'', game_ended (Some \<lparr>winnerId = None, reason = ''completed''\<rparr>))]
   \<and> gamesPlayed (stats (the (players
         (snd (endGame 20 ''g1'' (Some ''alice'') (Some ''timeout'') expired_world)) ''alice''))) = 2
   \<and> ratings (the (players
         (snd (endGame 20 ''g1'' (Some ''alice'') (Some ''timeout'') expired_world)) ''alice''))
        ''chess'' = Some 1016"
proof -
  let ?R = "\<lparr>winnerId = Some ''alice'', reason = ''timeout''\<rparr>"
  have g1: "fst (getGame ''g1'' after_first_end) = Some finished_game"
    by (rule after_first_end_game)
  have s1: "g_status finished_game = finished" by (simp add: finished_game_def)
  have h1: "g_gameMode finished_game = ''chess''
      \<and> g_players finished_game = [participant ''alice'' 1000, participant ''bob'' 1000]
      \<and> gp_id (participant ''alice'' 1000) \<noteq> gp_id (participant ''bob'' 1000)
      \<and> getPlayer (gp_id (participant ''alice'' 1000)) after_first_end
          = Some (the (players after_first_end ''alice''))
      \<and> ratings (the (players after_first_end ''alice'')) ''chess'' = Some 1000
      \<and> getPlayer (gp_id (participant ''bob'' 1000)) after_first_end
          = Some (the (players after_first_end ''bob''))
      \<and> ratings (the (players after_first_end ''bob'')) ''chess'' = Some 1000"
    by (simp add: finished_game_def chess_game_def participant_def after_first_end_players)
  note t1 = end_on_finished_match [OF g1 s1 refl refl refl, where now = 20
      and winner = "Some ''alice''" and rsn = "Some ''timeout''"
      and ?p1.0 = "participant ''alice'' 1000" and ?p2.0 = "participant ''bob'' 1000"
      and ?P1.0 = "the (players after_first_end ''alice'')"
      and ?P2.0 = "the (players after_first_end ''bob'')" and ?r1.0 = 1000 and ?r2.0 = 1000]
  from t1 have a1: "endGame 20 ''g1'' (Some ''alice'') (Some ''timeout'')
        (after_first_end\<lparr>activeGames := (activeGames after_first_end)
           (''g1'' \<mapsto> finished_game\<lparr>g_status := active, endedAt := None, result := None\<rparr>)\<rparr>)
       = endGame 20 ''g1'' (Some ''alice'') (Some ''timeout'') after_first_end"
    by (rule conjunct1)
  from t1 have b1: "activeGames (snd (endGame 20 ''g1'' (Some ''alice'') (Some ''timeout'') after_first_end)) ''g1''
       = Some (finished_game\<lparr>endedAt := Some 20, result := Some ?R\<rparr>)"
    by simp
  from t1 h1 have f1: "fst (endGame 20 ''g1'' (Some ''alice'') (Some ''timeout'') after_first_end) = Inr ()"
    by blast
  from t1 f1 have c1: "games (snd (endGame 20 ''g1'' (Some ''alice'') (Some ''timeout'') after_first_end)) ''g1''
       = Some (finished_game\<lparr>endedAt := Some 20, result := Some ?R\<rparr>)"
    and u1: "game_updates (snd (endGame 20 ''g1'' (Some ''alice'') (Some ''timeout'') after_first_end))
       = [(''g1'', game_ended (Some \<lparr>winnerId = None, reason = ''completed''\<rparr>)),
          (''g1'', game_ended (Some ?R))]"
    by (simp_all add: after_first_end_players)
  from t1 h1 have "\<exists>P1' P2'.
         getPlayer (gp_id (participant ''alice'' 1000))
            (snd (endGame 20 ''g1'' (Some ''alice'') (Some ''timeout'') after_first_end)) = Some P1'
       \<and> getPlayer (gp_id (participant ''bob'' 1000))
            (snd (endGame 20 ''g1'' (Some ''alice'') (Some ''timeout'') after_first_end)) = Some P2'
       \<and> gamesPlayed (stats P1') = gamesPlayed (stats (the (players after_first_end ''alice''))) + 1
       \<and> gamesPlayed (stats P2') = gamesPlayed (stats (the (players after_first_end ''bob''))) + 1
       \<and> ratings P1' ''chess''
           = Some (max 100 (js_round (real_of_int 1000 + rating_delta 1000 (gp_rating (participant ''bob'' 1000))
                (if Some ''alice'' = Some (gp_id (participant ''alice'' 1000)) then 1
                 else if Some ''alice'' = Some (gp_id (participant ''bob'' 1000)) then 0 else 1 / 2))))
       \<and> ratings P2' ''chess''
           = Some (max 100 (js_round (real_of_int 1000 + rating_delta 1000 (gp_rating (participant ''alice'' 1000))
                (if Some ''alice'' = Some (gp_id (participant ''alice'' 1000)) then 0
                 else if Some ''alice'' = Some (gp_id (participant ''bob'' 1000)) then 1 else 1 / 2))))"
    by blast
  then have p1: "\<exists>P1' P2'.
         getPlayer ''alice'' (snd (endGame 20 ''g1'' (Some ''alice'') (Some ''timeout'') after_first_end))
           = Some P1'
       \<and> getPlayer ''bob'' (snd (endGame 20 ''g1'' (Some ''alice'') (Some ''timeout'') after_first_end))
           = Some P2'
       \<and> gamesPlayed (stats P1') = 2 \<and> gamesPlayed (stats P2') = 2
       \<and> ratings P1' ''chess'' = Some 1016 \<and> ratings P2' ''chess'' = Some 984"
    by (simp add: participant_def after_first_end_players rating_delta_equal)
  have g2: "fst (getGame ''g2'' rts_world) = Some rts_game"
    by (simp add: getGame_def rts_world_def rts_game_def two_players_def empty_world_def)
  have s2: "g_status rts_game = finished" by (simp add: rts_game_def)
  have n2: "\<not> (g_gameMode rts_game = ''chess'' \<and> length (g_players rts_game) = 2)"
    by (simp add: rts_game_def)
  note t2 = end_on_finished_match [OF g2 s2 refl refl refl, where now = 20
      and winner = None and rsn = None
      and ?p1.0 = "participant ''alice'' 1000" and ?p2.0 = "participant ''bob'' 1000"
      and ?P1.0 = "new_player ''alice''" and ?P2.0 = "new_player ''bob''"
      and ?r1.0 = 1000 and ?r2.0 = 1000]
  from t2 n2 have f2: "fst (endGame 20 ''g2'' None None rts_world) = Inr ()"
    and q2: "players (snd (endGame 20 ''g2'' None None rts_world)) = players rts_world"
    by blast+
  from t2 have b2: "activeGames (snd (endGame 20 ''g2'' None None rts_world)) ''g2''
       = Some (rts_game\<lparr>endedAt := Some 20\<rparr>)"
    by (simp add: rts_game_def)
  have g3: "fst (getGame ''g1'' expired_world) = Some finished_game"
    using after_first_end_game
    by (auto simp add: expired_world_def getGame_def split: option.splits)
  note t3 = end_on_finished_match [OF g3 s1 refl refl refl, where now = 20
      and winner = "Some ''alice''" and rsn = "Some ''timeout''"
      and ?p1.0 = "participant ''alice'' 1000" and ?p2.0 = "participant ''bob'' 1000"
      and ?P1.0 = "the (players after_first_end ''alice'')"
      and ?P2.0 = "the (players after_first_end ''bob'')" and ?r1.0 = 1000 and ?r2.0 = 1000]
  have f3: "fst (endGame 20 ''g1'' (Some ''alice'') (Some ''timeout'') expired_world)
       = Inl (NotFound ''Player not found'')"
    by (simp add: expired_world_def after_first_end_def example_defs run_defs)
  from t3 have b3: "activeGames (snd (endGame 20 ''g1'' (Some ''alice'') (Some ''timeout'') expired_world)) ''g1''
       = Some (finished_game\<lparr>endedAt := Some 20, result := Some ?R\<rparr>)"
    by simp
  from t3 f3 have "games (snd (endGame 20 ''g1'' (Some ''alice'') (Some ''timeout'') expired_world))
       = games expired_world"
    and "game_updates (snd (endGame 20 ''g1'' (Some ''alice'') (Some ''timeout'') expired_world))
       = game_updates expired_world"
    by simp_all
  then have c3: "games (snd (endGame 20 ''g1'' (Some ''alice'') (Some ''timeout'') expired_world)) ''g1''
       = Some finished_game"
    and u3: "game_updates (snd (endGame 20 ''g1'' (Some ''alice'') (Some ''timeout'') expired_world))
       = [(''g1'', game_ended (Some \<lparr>winnerId = None, reason = ''completed''\<rparr>))]"
    by (simp_all add: expired_world_def after_first_end_def finished_game_def example_defs run_defs)
  have p3: "gamesPlayed (stats (the (players
         (snd (endGame 20 ''g1'' (Some ''alice'') (Some ''timeout'') expired_world)) ''alice''))) = 2"
    "ratings (the (players
         (snd (endGame 20 ''g1'' (Some ''alice'') (Some ''timeout'') expired_world)) ''alice''))
        ''chess'' = Some 1016"
    by (simp_all add: expired_world_def after_first_end_def example_defs run_defs)
  show ?thesis by (intro conjI f1 a1 b1 c1 u1 p1 f2 b2 q2 f3 b3 c3 u3 p3)
qed

text \<open>
  C10. In a two-player chess match, \<^verbatim>\<open>endGame\<close> with a winner id that is neither
  participant's applies the outcome \<open>draw\<close> to both participants: its error result,
  the player records and the leaderboards are those of the two draw updates, and they are
  the same as with no winner at all.
\<close>

theorem unknown_winner_is_draw:
  assumes "fst (getGame gameId w) = Some gm"
    and "g_gameMode gm = ''chess''"
    and "g_players gm = [p1, p2]"
    and "x \<noteq> gp_id p1" "x \<noteq> gp_id p2"
  shows "fst (endGame now gameId (Some x) rsn w)
           = fst (ignore_result
               (and_then (updatePlayerRating now (gp_id p1) ''chess'' (gp_rating p2) ''draw'' w)
                  (updatePlayerRating now (gp_id p2) ''chess'' (gp_rating p1) ''draw'')))
      \<and> players (snd (endGame now gameId (Some x) rsn w))
           = players (snd
               (and_then (updatePlayerRating now (gp_id p1) ''chess'' (gp_rating p2) ''draw'' w)
                  (updatePlayerRating now (gp_id p2) ''chess'' (gp_rating p1) ''draw'')))
      \<and> leaderboards (snd (endGame now gameId (Some x) rsn w))
           = leaderboards (snd
               (and_then (updatePlayerRating now (gp_id p1) ''chess'' (gp_rating p2) ''draw'' w)
                  (updatePlayerRating now (gp_id p2) ''chess'' (gp_rating p1) ''draw'')))
      \<and> fst (endGame now gameId (Some x) rsn w) = fst (endGame now gameId None rsn w)
      \<and> players (snd (endGame now gameId (Some x) rsn w))
           = players (snd (endGame now gameId None rsn w))
      \<and> leaderboards (snd (endGame now gameId (Some x) rsn w))
           = leaderboards (snd (endGame now gameId None rsn w))"
proof -
  have a: "Some x \<noteq> Some (gp_id p1)" "Some x \<noteq> Some (gp_id p2)" using assms(4,5) by simp_all
  have b: "None \<noteq> Some (gp_id p1)" "None \<noteq> Some (gp_id p2)" by simp_all
  from endGame_draw_branch [OF assms(1-3) a refl, of now rsn]
    endGame_draw_branch [OF assms(1-3) b refl, of now rsn]
  show ?thesis by simp
qed

theorem unknown_winner_is_draw_witness:
  "fst (endGame 10 ''g1'' (Some ''carol'') None game_world) = Inr ()
   \<and> players (snd (endGame 10 ''g1'' (Some ''carol'') None game_world))
       = players (snd (endGame 10 ''g1'' None None game_world))
   \<and> leaderboards (snd (endGame 10 ''g1'' (Some ''carol'') None game_world))
       = leaderboards (snd (endGame 10 ''g1'' None None game_world))
   \<and> draws (stats (the (players (snd (endGame 10 ''g1'' (Some ''carol'') None game_world)) ''alice''))) = 1
   \<and> draws (stats (the (players (snd (endGame 10 ''g1'' (Some ''carol'') None game_world)) ''bob''))) = 1
   \<and> ratings (the (players (snd (endGame 10 ''g1'' (Some ''carol'') None game_world)) ''alice'')) ''chess''
       = Some 1000"
proof -
  have 1: "fst (getGame ''g1'' game_world) = Some chess_game"
    by (simp add: getGame_def game_world_def)
  have 2: "g_gameMode chess_game = ''chess''" by (simp add: chess_game_def)
  have 3: "g_players chess_game = [participant ''alice'' 1000, participant ''bob'' 1000]"
    by (simp add: chess_game_def)
  have 4: "''carol'' \<noteq> gp_id (participant ''alice'' 1000)"
    "''carol'' \<noteq> gp_id (participant ''bob'' 1000)"
    by (simp_all add: participant_def)
  have d: "and_then (updatePlayerRating 10 (gp_id (participant ''alice'' 1000)) ''chess''
                (gp_rating (participant ''bob'' 1000)) ''draw'' game_world)
             (updatePlayerRating 10 (gp_id (participant ''bob'' 1000)) ''chess''
                (gp_rating (participant ''alice'' 1000)) ''draw'')
           = and_then (updatePlayerRating 10 ''alice'' ''chess'' 1000 ''draw'' game_world)
             (updatePlayerRating 10 ''bob'' ''chess'' 1000 ''draw'')"
    by (simp add: participant_def)
  from unknown_winner_is_draw [OF 1 2 3 4, of 10 None]
  show ?thesis unfolding d
    by (simp add: example_defs run_defs)
qed

text \<open>
  C6, as the specification states it, fails: \<^verbatim>\<open>startGame\<close> does not look at the status.
  On a finished match it sets the status back to \<open>active\<close>, and on an active match it
  sets \<open>startedAt\<close> again; both times it emits another update.
\<close>

theorem start_on_finished_counterexample:
  "g_status (the (activeGames after_first_end ''g1'')) = finished
   \<and> g_status (the (activeGames (startGame 30 ''g1'' after_first_end) ''g1'')) = active
   \<and> startedAt (the (activeGames (startGame 30 ''g1'' after_first_end) ''g1'')) = Some 30
   \<and> length (game_updates (startGame 30 ''g1'' after_first_end))
       = Suc (length (game_updates after_first_end))
   \<and> g_status (the (activeGames game_world ''g1'')) = active
   \<and> startedAt (the (activeGames game_world ''g1'')) = Some 5
   \<and> startedAt (the (activeGames (startGame 30 ''g1'' game_world) ''g1'')) = Some 30
   \<and> length (game_updates (startGame 30 ''g1'' game_world))
       = Suc (length (game_updates game_world))"
  by (simp add: after_first_end_def startGame_def example_defs run_defs)

text \<open>
  C6, amended. \<^verbatim>\<open>startGame\<close> on a match that exists, whatever its status, sets the status
  to \<open>active\<close> and \<open>startedAt\<close> to now, in the map and in the store, and emits
  \<open>game_started\<close>; it changes nothing only when there is no such match. \<^verbatim>\<open>endGame\<close> on a
  match that exists, whatever its status, leaves it \<open>finished\<close> in the map.
\<close>

theorem startGame_any_status:
  "(fst (getGame gameId w) = Some gm \<longrightarrow>
      activeGames (startGame now gameId w) gameId
        = Some (gm\<lparr>g_status := active, startedAt := Some now\<rparr>)
      \<and> games (startGame now gameId w) gameId
        = Some (gm\<lparr>g_status := active, startedAt := Some now\<rparr>)
      \<and> game_updates (startGame now gameId w)
        = game_updates w @ [(gameId, game_started (gm\<lparr>g_status := active, startedAt := Some now\<rparr>))])
   \<and> (fst (getGame gameId w) = None \<longrightarrow> startGame now gameId w = w)
   \<and> (fst (getGame gameId w) = Some gm \<longrightarrow>
      activeGames (snd (endGame now gameId winner rsn w)) gameId
        = Some (gm\<lparr>g_status := finished, endedAt := Some now,
             result := Some \<lparr>winnerId = winner,
                reason = (case rsn of None \<Rightarrow> ''completed'' | Some r \<Rightarrow> r)\<rparr>\<rparr>))"
  using startGame_effect [of gameId w gm _ now, OF _ refl] startGame_missing [of gameId w now]
    endGame_sets_finished [of gameId w gm now winner rsn]
  by blast

theorem startGame_any_status_witness:
  "activeGames (startGame 30 ''g1'' after_first_end) ''g1''
     = Some (finished_game\<lparr>g_status := active, startedAt := Some 30\<rparr>)
   \<and> game_updates (startGame 30 ''g1'' after_first_end)
     = game_updates after_first_end
       @ [(''g1'', game_started (finished_game\<lparr>g_status := active, startedAt := Some 30\<rparr>))]
   \<and> startGame 30 ''g9'' game_world = game_world
   \<and> fst (getGame ''g3'' starting_world) = Some started_game
   \<and> activeGames (snd (endGame 3 ''g3'' None None starting_world)) ''g3''
     = Some (started_game\<lparr>g_status := finished, endedAt := Some 3,
          result := Some \<lparr>winnerId = None, reason = ''completed''\<rparr>\<rparr>)"
proof -
  have 1: "fst (getGame ''g1'' after_first_end) = Some finished_game"
    by (rule after_first_end_game)
  have 2: "fst (getGame ''g9'' game_world) = None"
    by (simp add: getGame_def game_world_def two_players_def empty_world_def)
  have 3: "fst (getGame ''g3'' starting_world) = Some started_game"
    by (simp add: getGame_def starting_world_def createGame_def started_game_def entry_def
        participant_def getGameConfig_def Let_def)
  from startGame_any_status [of "''g1''" after_first_end finished_game 30 None None]
    startGame_any_status [of "''g9''" game_world finished_game 30 None None]
    startGame_any_status [of "''g3''" starting_world started_game 3 None None]
    1 2 3
  show ?thesis by simp
qed

text \<open>
  C5, as the specification states it (both entries lack the preference, or the two
  preferences are equal), fails: an entry with a region and an entry without one are
  compatible in fps.
\<close>

theorem one_sided_preference_counterexample:
  "arePlayersCompatible 0 (entry ''alice'' 1000 (region_pref ''eu'') 0)
       (entry ''bob'' 1000 None 0) ''fps''
   \<and> \<not> spec_compatible 0 (entry ''alice'' 1000 (region_pref ''eu'') 0)
       (entry ''bob'' 1000 None 0) ''fps''"
  by (simp add: arePlayersCompatible_def spec_compatible_def checkFPSCompatibility_def
      spec_gate_def prefs_of_def entry_def region_pref_def no_preferences_def truthy_def)

text \<open>
  C5, amended. Two entries are compatible exactly when their ratings differ by at most
  100 + 30 * floor(maxWait / 10000), and, in fps, at least one of them has no region
  (none, or the empty string) or the regions are equal, and, in chess, the same for the
  time control; other modes add no gate. The predicate is symmetric.
\<close>

theorem arePlayersCompatible_iff:
  "(arePlayersCompatible now a b gameMode \<longleftrightarrow>
      \<bar>q_rating a - q_rating b\<bar>
        \<le> 100 + 30 * (max (now - joinedAt a) (now - joinedAt b) div 10000)
      \<and> (gameMode = ''fps'' \<longrightarrow>
            \<not> truthy (region (prefs_of a)) \<or> \<not> truthy (region (prefs_of b))
            \<or> region (prefs_of a) = region (prefs_of b))
      \<and> (gameMode = ''chess'' \<longrightarrow>
            \<not> truthy (timeControl (prefs_of a)) \<or> \<not> truthy (timeControl (prefs_of b))
            \<or> timeControl (prefs_of a) = timeControl (prefs_of b)))
   \<and> arePlayersCompatible now a b gameMode = arePlayersCompatible now b a gameMode"
proof
  show "arePlayersCompatible now a b gameMode \<longleftrightarrow>
      \<bar>q_rating a - q_rating b\<bar>
        \<le> 100 + 30 * (max (now - joinedAt a) (now - joinedAt b) div 10000)
      \<and> (gameMode = ''fps'' \<longrightarrow>
            \<not> truthy (region (prefs_of a)) \<or> \<not> truthy (region (prefs_of b))
            \<or> region (prefs_of a) = region (prefs_of b))
      \<and> (gameMode = ''chess'' \<longrightarrow>
            \<not> truthy (timeControl (prefs_of a)) \<or> \<not> truthy (timeControl (prefs_of b))
            \<or> timeControl (prefs_of a) = timeControl (prefs_of b))"
    by (auto simp add: arePlayersCompatible_def checkFPSCompatibility_def
        checkChessCompatibility_def Let_def)
next
  have "\<bar>q_rating a - q_rating b\<bar> = \<bar>q_rating b - q_rating a\<bar>" by simp
  moreover have "max (now - joinedAt a) (now - joinedAt b) = max (now - joinedAt b) (now - joinedAt a)"
    by (simp add: max.commute)
  ultimately show "arePlayersCompatible now a b gameMode = arePlayersCompatible now b a gameMode"
    unfolding arePlayersCompatible_def checkFPSCompatibility_def checkChessCompatibility_def Let_def
    by (simp only:) auto
qed

theorem arePlayersCompatible_iff_witness:
  "arePlayersCompatible 0 (entry ''alice'' 1000 (region_pref ''eu'') 0)
       (entry ''bob'' 1000 None 0) ''fps''
   \<and> arePlayersCompatible 0 (entry ''bob'' 1000 None 0)
       (entry ''alice'' 1000 (region_pref ''eu'') 0) ''fps''
   \<and> \<not> arePlayersCompatible 0 (entry ''alice'' 1000 (region_pref ''eu'') 0)
       (entry ''bob'' 1000 (region_pref ''us'') 0) ''fps''
   \<and> arePlayersCompatible 0 (entry ''alice'' 1000 (region_pref ''eu'') 0)
       (entry ''bob'' 1000 (region_pref ''us'') 0) ''chess''
   \<and> \<not> arePlayersCompatible 2000 (entry ''alice'' 1000 None 0)
       (entry ''carol'' 1500 None 0) ''chess''
   \<and> arePlayersCompatible 170000 (entry ''alice'' 1000 None 0)
       (entry ''carol'' 1500 None 0) ''chess''"
proof -
  note ev = prefs_of_def entry_def region_pref_def no_preferences_def truthy_def
  have 1: "arePlayersCompatible 0 (entry ''alice'' 1000 (region_pref ''eu'') 0)
       (entry ''bob'' 1000 None 0) ''fps''"
    using arePlayersCompatible_iff [of 0 "entry ''alice'' 1000 (region_pref ''eu'') 0"
      "entry ''bob'' 1000 None 0" "''fps''"]
    by (simp add: ev)
  have 2: "arePlayersCompatible 0 (entry ''bob'' 1000 None 0)
       (entry ''alice'' 1000 (region_pref ''eu'') 0) ''fps''"
    using 1 arePlayersCompatible_iff [of 0 "entry ''alice'' 1000 (region_pref ''eu'') 0"
      "entry ''bob'' 1000 None 0" "''fps''"]
    by blast
  have 3: "\<not> arePlayersCompatible 0 (entry ''alice'' 1000 (region_pref ''eu'') 0)
       (entry ''bob'' 1000 (region_pref ''us'') 0) ''fps''"
    using arePlayersCompatible_iff [of 0 "entry ''alice'' 1000 (region_pref ''eu'') 0"
      "entry ''bob'' 1000 (region_pref ''us'') 0" "''fps''"]
    by (simp add: ev)
  have 4: "arePlayersCompatible 0 (entry ''alice'' 1000 (region_pref ''eu'') 0)
       (entry ''bob'' 1000 (region_pref ''us'') 0) ''chess''"
    using arePlayersCompatible_iff [of 0 "entry ''alice'' 1000 (region_pref ''eu'') 0"
      "entry ''bob'' 1000 (region_pref ''us'') 0" "''chess''"]
    by (simp add: ev)
  have 5: "\<not> arePlayersCompatible 2000 (entry ''alice'' 1000 None 0)
       (entry ''carol'' 1500 None 0) ''chess''"
    using arePlayersCompatible_iff [of 2000 "entry ''alice'' 1000 None 0"
      "entry ''carol'' 1500 None 0" "''chess''"]
    by (simp add: ev)
  have 6: "arePlayersCompatible 170000 (entry ''alice'' 1000 None 0)
       (entry ''carol'' 1500 None 0) ''chess''"
    using arePlayersCompatible_iff [of 170000 "entry ''alice'' 1000 None 0"
      "entry ''carol'' 1500 None 0" "''chess''"]
    by (simp add: ev)
  from 1 2 3 4 5 6 show ?thesis by blast
qed

text \<open>
  C7, as the specification states it, fails: \<^verbatim>\<open>createPlayer\<close> does not look at the name.
  A name of one character, and the empty name, give a player record and a leaderboard
  entry.
\<close>

theorem short_name_counterexample:
  "length ''a'' < 2
   \<and> fst (createPlayer ''id1'' 0 ''a'' (Some ''chess'') empty_world)
       = Inr \<lparr>p_id = ''id1'', p_username = ''a'', ratings = initial_ratings,
               stats = no_stats, p_createdAt = 0, lastActive = 0\<rparr>
   \<and> p_username (the (players (snd (createPlayer ''id1'' 0 ''a'' (Some ''chess'') empty_world))
         ''id1'')) = ''a''
   \<and> leaderboards (snd (createPlayer ''id1'' 0 ''a'' (Some ''chess'') empty_world)) ''global''
       = [(''id1'', 1000)]
   \<and> fst (createPlayer ''id2'' 0 '''' None empty_world)
       = Inr \<lparr>p_id = ''id2'', p_username = '''', ratings = initial_ratings,
               stats = no_stats, p_createdAt = 0, lastActive = 0\<rparr>"
  by (simp add: createPlayer_def empty_world_def initial_ratings_def no_stats_def zAdd_def
      zRem_def Let_def)

text \<open>
  C7, amended. For every name, of any length, and a mode among fps, chess, moba and rts
  (or none, which is fps), \<^verbatim>\<open>createPlayer\<close> returns a player with the generated id and
  the given name, all four ratings 1000 and zero counters, stores it under the id, and
  sets the id's score in \<^verbatim>\<open>leaderboard:global\<close> to the rating of the mode, 1000, leaving
  the other members as they are.
\<close>

theorem createPlayer_effect:
  assumes "gameMode \<in> {None, Some ''fps'', Some ''chess'', Some ''moba'', Some ''rts''}"
  shows "\<exists>pl w'. createPlayer playerId now username gameMode w = (Inr pl, w')
      \<and> p_id pl = playerId \<and> p_username pl = username
      \<and> ratings pl ''fps'' = Some 1000 \<and> ratings pl ''chess'' = Some 1000
      \<and> ratings pl ''moba'' = Some 1000 \<and> ratings pl ''rts'' = Some 1000
      \<and> stats pl = \<lparr>gamesPlayed = 0, wins = 0, losses = 0, draws = 0\<rparr>
      \<and> players w' = (players w)(playerId \<mapsto> pl)
      \<and> ratings pl (case gameMode of None \<Rightarrow> ''fps'' | Some m \<Rightarrow> m) = Some 1000
      \<and> filter (\<lambda>e. fst e = playerId) (leaderboards w' ''global'') = [(playerId, 1000)]
      \<and> filter (\<lambda>e. fst e \<noteq> playerId) (leaderboards w' ''global'')
          = filter (\<lambda>e. fst e \<noteq> playerId) (leaderboards w ''global'')"
  using assms
  by (auto simp add: createPlayer_def Let_def initial_ratings_def zAdd_own_entry)
    (auto simp add: zAdd_def zRem_def)

theorem createPlayer_effect_witness:
  "\<exists>pl w'. createPlayer ''id1'' 0 ''a'' (Some ''chess'') empty_world = (Inr pl, w')
      \<and> p_id pl = ''id1'' \<and> p_username pl = ''a''
      \<and> ratings pl ''fps'' = Some 1000 \<and> ratings pl ''chess'' = Some 1000
      \<and> ratings pl ''moba'' = Some 1000 \<and> ratings pl ''rts'' = Some 1000
      \<and> players w' ''id1'' = Some pl
      \<and> filter (\<lambda>e. fst e = ''id1'') (leaderboards w' ''global'') = [(''id1'', 1000)]"
proof -
  have h: "Some ''chess'' \<in> {None, Some ''fps'', Some ''chess'', Some ''moba'', Some ''rts''}"
    by simp
  from createPlayer_effect [OF h, of "''id1''" 0 "''a''" empty_world]
  show ?thesis by auto
qed

text \<open>
  C9 fails on every input: \<^verbatim>\<open>getLeaderboard\<close> reads the range with
  \<^verbatim>\<open>RedisClient.zRevRangeWithScores\<close>, a method the wrapper does not have, so every call
  throws a \<^verbatim>\<open>TypeError\<close> before any record is built and no list is returned.
\<close>

theorem getLeaderboard_throws:
  "getLeaderboard gameMode limit w
     = Inl (TypeError ''RedisClient.zRevRangeWithScores is not a function'')"
  by (simp add: getLeaderboard_def wrapper_zRevRangeWithScores_def Let_def)

text \<open>
  C2, as the specification states it, fails: \<^verbatim>\<open>addToQueue\<close> adds the JSON text of the new
  entry to the sorted set and removes nothing. A player who joins the chess queue at time
  1 and again at time 2 has two entries there, which differ in \<open>joinedAt\<close>.
\<close>

theorem double_entry_counterexample:
  "map q_id (zmembers (queues once_queued ''chess'')) = [''alice'']
   \<and> map q_id (zmembers (queues twice_queued ''chess'')) = [''alice'', ''alice'']
   \<and> map joinedAt (zmembers (queues twice_queued ''chess'')) = [1, 2]"
  by (simp add: twice_queued_def once_queued_def addToQueue_def queue_rating_def getPlayer_def
      publish_def zmembers_def zAdd_def zRem_def Let_def two_players_def empty_world_def
      new_player_def initial_ratings_def)

text \<open>
  C2, amended. The queue never holds the same entry (all fields equal) twice. For a
  stored player and a mode in which the rating looked up is a number, \<^verbatim>\<open>addToQueue\<close>
  adds the new entry and removes no other: the queue of the mode afterwards holds the new
  entry and every entry it held before, an earlier entry of the same player stays unless
  it is equal to the new one in every field, and the number of entries grows by one unless
  the new entry was there already. The call then publishes the join message and returns;
  when the bus client has no channel it throws instead, after the entry has been added,
  and publishes nothing. The rating looked up is not a number exactly when the mode is a
  key of \<^verbatim>\<open>Object.prototype\<close> that the player's ratings do not hold; then the store
  rejects the score, the call throws and nothing is queued.
\<close>

theorem addToQueue_effect:
  assumes "getPlayer playerId w = Some pl" and "distinct (zmembers (queues w gameMode))"
  shows "(\<forall>rating. queue_rating pl gameMode = Some rating \<longrightarrow>
          (\<exists>e w'. addToQueue now playerId gameMode prefs socketId w
                     = (if channel w then Inr ()
                        else Inl (ChannelError ''RabbitMQ channel not initialized''), w')
             \<and> q_id e = playerId \<and> q_rating e = rating \<and> q_preferences e = prefs
             \<and> q_socketId e = socketId \<and> joinedAt e = now
             \<and> set (zmembers (queues w' gameMode)) = insert e (set (zmembers (queues w gameMode)))
             \<and> distinct (zmembers (queues w' gameMode))
             \<and> length (zmembers (queues w' gameMode))
                 = (if e \<in> set (zmembers (queues w gameMode))
                    then length (zmembers (queues w gameMode))
                    else Suc (length (zmembers (queues w gameMode))))
             \<and> published w'
                 = (if channel w then published w @ [queue_join playerId gameMode now]
                    else published w)))
     \<and> (queue_rating pl gameMode = None
          \<longrightarrow> addToQueue now playerId gameMode prefs socketId w = (Inl BackendError, w))
     \<and> (queue_rating pl gameMode = None
          \<longleftrightarrow> ratings pl gameMode = None \<and> gameMode \<in> set object_prototype_keys)"
proof (intro conjI allI impI iffI)
  fix rating
  assume qr: "queue_rating pl gameMode = Some rating"
  define e where "e = \<lparr>q_id = playerId, q_username = p_username pl, q_rating = rating,
                  q_preferences = prefs, q_socketId = socketId,
                  joinedAt = now, searchExpansion = 0\<rparr>"
  define w1 where "w1 = w\<lparr>queues := (queues w)(gameMode := zAdd (queues w gameMode) rating e)\<rparr>"
  define w' where "w' = snd (publish (queue_join playerId gameMode now) w1)"
  have r: "addToQueue now playerId gameMode prefs socketId w
      = (if channel w then Inr ()
         else Inl (ChannelError ''RabbitMQ channel not initialized''), w')"
    using assms(1) qr by (simp add: addToQueue_def Let_def e_def w'_def w1_def publish_def)
  have q: "queues w' gameMode = zAdd (queues w gameMode) rating e"
    by (simp add: w'_def w1_def publish_def)
  have p: "published w'
      = (if channel w then published w @ [queue_join playerId gameMode now] else published w)"
    by (simp add: w'_def w1_def publish_def)
  have d: "distinct (zmembers (queues w' gameMode))"
    unfolding q using assms(2) by (rule distinct_zmembers_zAdd)
  have s: "set (zmembers (queues w' gameMode)) = insert e (set (zmembers (queues w gameMode)))"
    unfolding q by (rule set_zmembers_zAdd)
  have "length (zmembers (queues w' gameMode)) = card (insert e (set (zmembers (queues w gameMode))))"
    using d s distinct_card by metis
  also have "\<dots> = (if e \<in> set (zmembers (queues w gameMode))
             then length (zmembers (queues w gameMode))
             else Suc (length (zmembers (queues w gameMode))))"
    using assms(2) by (simp add: distinct_card insert_absorb)
  finally have l: "length (zmembers (queues w' gameMode))
          = (if e \<in> set (zmembers (queues w gameMode))
             then length (zmembers (queues w gameMode))
             else Suc (length (zmembers (queues w gameMode))))" .
  have f: "q_id e = playerId" "q_rating e = rating" "q_preferences e = prefs"
    "q_socketId e = socketId" "joinedAt e = now"
    by (simp_all add: e_def)
  show "\<exists>e w'. addToQueue now playerId gameMode prefs socketId w
                     = (if channel w then Inr ()
                        else Inl (ChannelError ''RabbitMQ channel not initialized''), w')
             \<and> q_id e = playerId \<and> q_rating e = rating \<and> q_preferences e = prefs
             \<and> q_socketId e = socketId \<and> joinedAt e = now
             \<and> set (zmembers (queues w' gameMode)) = insert e (set (zmembers (queues w gameMode)))
             \<and> distinct (zmembers (queues w' gameMode))
             \<and> length (zmembers (queues w' gameMode))
                 = (if e \<in> set (zmembers (queues w gameMode))
                    then length (zmembers (queues w gameMode))
                    else Suc (length (zmembers (queues w gameMode))))
             \<and> published w'
                 = (if channel w then published w @ [queue_join playerId gameMode now]
                    else published w)"
    by (rule exI [of _ e], rule exI [of _ w']) (intro conjI r f s d l p)
next
  assume "queue_rating pl gameMode = None"
  then show "addToQueue now playerId gameMode prefs socketId w = (Inl BackendError, w)"
    using assms(1) by (simp add: addToQueue_def)
next
  assume "queue_rating pl gameMode = None"
  then show "ratings pl gameMode = None"
    by (simp add: queue_rating_def split: option.splits if_splits)
next
  assume "queue_rating pl gameMode = None"
  then show "gameMode \<in> set object_prototype_keys"
    by (simp add: queue_rating_def split: option.splits if_splits)
next
  assume "ratings pl gameMode = None \<and> gameMode \<in> set object_prototype_keys"
  then show "queue_rating pl gameMode = None"
    by (simp add: queue_rating_def)
qed

theorem addToQueue_effect_witness:
  "(\<exists>e w'. addToQueue 2 ''alice'' ''chess'' None ''s1'' once_queued = (Inr (), w')
      \<and> q_id e = ''alice'' \<and> q_rating e = 1000 \<and> joinedAt e = 2
      \<and> set (zmembers (queues w' ''chess''))
          = insert e (set (zmembers (queues once_queued ''chess'')))
      \<and> distinct (zmembers (queues w' ''chess'')))
   \<and> (\<exists>e w'. addToQueue 2 ''alice'' ''chess'' None ''s1'' (once_queued\<lparr>channel := False\<rparr>)
               = (Inl (ChannelError ''RabbitMQ channel not initialized''), w')
      \<and> q_id e = ''alice'' \<and> joinedAt e = 2
      \<and> set (zmembers (queues w' ''chess''))
          = insert e (set (zmembers (queues once_queued ''chess'')))
      \<and> published w' = published once_queued)
   \<and> addToQueue 1 ''alice'' ''constructor'' None ''s1'' two_players = (Inl BackendError, two_players)"
proof -
  have q: "zmembers (queues once_queued ''chess'')
      = [\<lparr>q_id = ''alice'', q_username = ''alice'', q_rating = 1000, q_preferences = None,
          q_socketId = ''s1'', joinedAt = 1, searchExpansion = 0\<rparr>]"
    by (simp add: once_queued_def addToQueue_def queue_rating_def getPlayer_def publish_def
      zmembers_def zAdd_def zRem_def Let_def two_players_def empty_world_def new_player_def
      initial_ratings_def)
  have c: "channel once_queued"
    by (simp add: once_queued_def addToQueue_def queue_rating_def getPlayer_def publish_def
        Let_def two_players_def empty_world_def new_player_def initial_ratings_def)
  have 1: "getPlayer ''alice'' once_queued = Some (new_player ''alice'')"
    by (simp add: once_queued_def addToQueue_def queue_rating_def getPlayer_def publish_def
        Let_def two_players_def empty_world_def new_player_def initial_ratings_def)
  have 2: "distinct (zmembers (queues once_queued ''chess''))"
    by (simp add: q)
  have 3: "queue_rating (new_player ''alice'') ''chess'' = Some 1000"
    by (simp add: queue_rating_def new_player_def initial_ratings_def)
  from addToQueue_effect [OF 1 2, of 2 None "''s1''"] 3 c
  have a: "\<exists>e w'. addToQueue 2 ''alice'' ''chess'' None ''s1'' once_queued = (Inr (), w')
      \<and> q_id e = ''alice'' \<and> q_rating e = 1000 \<and> joinedAt e = 2
      \<and> set (zmembers (queues w' ''chess''))
          = insert e (set (zmembers (queues once_queued ''chess'')))
      \<and> distinct (zmembers (queues w' ''chess''))"
    by simp blast
  have 4: "getPlayer ''alice'' (once_queued\<lparr>channel := False\<rparr>) = Some (new_player ''alice'')"
    using 1 by (simp add: getPlayer_def)
  have 5: "distinct (zmembers (queues (once_queued\<lparr>channel := False\<rparr>) ''chess''))"
    using 2 by simp
  from addToQueue_effect [OF 4 5, of 2 None "''s1''"] 3
  have b: "\<exists>e w'. addToQueue 2 ''alice'' ''chess'' None ''s1'' (once_queued\<lparr>channel := False\<rparr>)
               = (Inl (ChannelError ''RabbitMQ channel not initialized''), w')
      \<and> q_id e = ''alice'' \<and> joinedAt e = 2
      \<and> set (zmembers (queues w' ''chess''))
          = insert e (set (zmembers (queues once_queued ''chess'')))
      \<and> published w' = published once_queued"
    by simp blast
  have 6: "getPlayer ''alice'' two_players = Some (new_player ''alice'')"
    by (simp add: getPlayer_def two_players_def empty_world_def)
  have 7: "distinct (zmembers (queues two_players ''constructor''))"
    by (simp add: two_players_def empty_world_def zmembers_def)
  have 8: "queue_rating (new_player ''alice'') ''constructor'' = None"
    by (simp add: queue_rating_def new_player_def initial_ratings_def object_prototype_keys_def
        object_function_keys_def)
  from addToQueue_effect [OF 6 7, of 1 None "''s1''"] 8
  have d: "addToQueue 1 ''alice'' ''constructor'' None ''s1'' two_players
      = (Inl BackendError, two_players)"
    by blast
  show ?thesis by (intro conjI a b d)
qed

text \<open>
  C3, as the specification states it, fails. With two compatible chess players and the
  first \<^verbatim>\<open>zRem\<close> rejecting, \<open>match_found\<close> is emitted for the pair and both stay in the
  queue. With four players and the second \<^verbatim>\<open>createGame\<close> rejecting, the tick throws after
  the first pair has been removed. With no call of the store rejecting but the bus client
  without its channel, \<open>match_found\<close> is emitted for the pair, the tick throws and both
  stay in the queue. And in a tick that does not throw, a player with two entries in the
  queue is matched through one of them and is still queued through the other.
\<close>

theorem tick_not_atomic_counterexample:
  "map m_players (match_found
       (processMatchmaking entry_json 2000 uuid_seq ''chess'' (Some 2) queue_world))
     = [ [entry ''alice'' 1000 None 0, entry ''bob'' 1050 None 0] ]
   \<and> zmembers (queues (processMatchmaking entry_json 2000 uuid_seq ''chess'' (Some 2) queue_world)
                 ''chess'')
     = [entry ''alice'' 1000 None 0, entry ''bob'' 1050 None 0]
   \<and> fst (tick_body entry_json 2000 uuid_seq ''chess'' (Some 4, four_world)) = Inl BackendError
   \<and> zmembers (queues four_world ''chess'')
     = [entry ''alice'' 1000 None 0, entry ''bob'' 1050 None 0,
        entry ''carol'' 1500 None 1, entry ''dave'' 1520 None 1]
   \<and> zmembers (queues (processMatchmaking entry_json 2000 uuid_seq ''chess'' (Some 4) four_world)
                 ''chess'')
     = [entry ''carol'' 1500 None 1, entry ''dave'' 1520 None 1]
   \<and> fst (tick_body entry_json 2000 uuid_seq ''chess'' (None, offline_world))
     = Inl (ChannelError ''RabbitMQ channel not initialized'')
   \<and> map m_players (match_found
       (processMatchmaking entry_json 2000 uuid_seq ''chess'' None offline_world))
     = [ [entry ''alice'' 1000 None 0, entry ''bob'' 1050 None 0] ]
   \<and> zmembers (queues (processMatchmaking entry_json 2000 uuid_seq ''chess'' None offline_world)
                 ''chess'')
     = [entry ''alice'' 1000 None 0, entry ''bob'' 1050 None 0]
   \<and> fst (tick_body entry_json 2000 uuid_seq ''chess'' (None, double_world)) = Inr None
   \<and> map m_players (match_found
       (processMatchmaking entry_json 2000 uuid_seq ''chess'' None double_world))
     = [ [entry ''alice'' 1000 None 0, entry ''bob'' 1050 None 0] ]
   \<and> map q_id (zmembers (queues
       (processMatchmaking entry_json 2000 uuid_seq ''chess'' None double_world) ''chess''))
     = [''alice'']"
  by (simp add: queue_world_def chess_queue_def four_world_def four_queue_def offline_world_def
      double_world_def double_queue_def two_players_def empty_world_def tick_defs)

text \<open>
  C3, amended. A tick only removes entries from the queue of its mode, and every entry
  it removes belongs to a group for which it has emitted \<open>match_found\<close>: no group is
  removed before its match is created and emitted. In a tick that does not throw, the
  queue at the end holds exactly the entries it held before that are in no group emitted
  in the tick: the entries of the groups are gone, and any other entry stays, also another
  entry of a matched player. When no call of the store rejects and the bus client has its
  channel, the tick does not throw. The queues of the other modes stay as they are.
\<close>

theorem tick_effect:
  assumes "tick_body json now uuid gameMode (b, w) = (r, w')"
  shows "\<exists>X. match_found w' = match_found w @ X
     \<and> set (zmembers (queues w' gameMode)) \<subseteq> set (zmembers (queues w gameMode))
     \<and> (\<forall>e \<in> set (zmembers (queues w gameMode)) - set (zmembers (queues w' gameMode)).
           \<exists>m \<in> set X. e \<in> set (m_players m))
     \<and> (\<forall>b'. r = Inr b' \<longrightarrow>
           set (zmembers (queues w' gameMode))
             = set (zmembers (queues w gameMode)) - (\<Union>m \<in> set X. set (m_players m)))
     \<and> (b = None \<and> channel w \<longrightarrow> r = Inr None)
     \<and> (\<forall>m. m \<noteq> gameMode \<longrightarrow> queues w' m = queues w m)"
proof (cases "store_call b")
  case (Inl e)
  with assms have "w' = w" "r = Inl e" "b \<noteq> None"
    by (auto simp add: tick_body_def store_call_def split: option.splits nat.splits)
  then show ?thesis by (intro exI [of _ "[]"]) simp
next
  case (Inr b1)
  have n: "b = None \<longrightarrow> b1 = None" using Inr by (rule store_call_budget)
  show ?thesis
  proof (cases "length (zRange json (queues w gameMode) 0 (- 1)) < 2")
    case True
    with assms Inr have "w' = w" "r = Inr b1" by (auto simp add: tick_body_def)
    then show ?thesis using n by (intro exI [of _ "[]"]) simp
  next
    case False
    let ?ms = "findMatches now (zRange json (queues w gameMode) 0 (- 1)) gameMode"
    from False assms Inr
    have "commit_matches now uuid 0 gameMode ?ms (b1, w) = (r, w')"
      by (simp add: tick_body_def Let_def)
    from commit_matches_effect [OF this] obtain X where
      x: "match_found w' = match_found w @ X"
      "map m_players X = take (length X) ?ms"
      "set (zmembers (queues w' gameMode)) \<subseteq> set (zmembers (queues w gameMode))"
      "\<forall>e \<in> set (zmembers (queues w gameMode)) - set (zmembers (queues w' gameMode)).
           \<exists>m \<in> set X. e \<in> set (m_players m)"
      "\<forall>b'. r = Inr b' \<longrightarrow>
           (\<forall>m \<in> set X. \<forall>p \<in> set (m_players m). p \<notin> set (zmembers (queues w' gameMode)))
           \<and> length X = length ?ms"
      "b1 = None \<and> channel w \<and> (gameMode \<notin> set object_function_keys \<or> ?ms = [])
          \<longrightarrow> r = Inr None"
      "\<forall>m. m \<noteq> gameMode \<longrightarrow> queues w' m = queues w m"
      by (elim exE conjE) (rule that; assumption)
    have x4: "\<forall>b'. r = Inr b' \<longrightarrow>
           set (zmembers (queues w' gameMode))
             = set (zmembers (queues w gameMode)) - (\<Union>m \<in> set X. set (m_players m))"
    proof (intro allI impI)
      fix b' assume "r = Inr b'"
      with x(5) have g: "\<forall>m \<in> set X. \<forall>p \<in> set (m_players m).
          p \<notin> set (zmembers (queues w' gameMode))"
        by blast
      show "set (zmembers (queues w' gameMode))
             = set (zmembers (queues w gameMode)) - (\<Union>m \<in> set X. set (m_players m))"
        using g x(3) x(4) by blast
    qed
    have k: "gameMode \<notin> set object_function_keys \<or> ?ms = []"
    proof (cases "gameMode \<in> set object_function_keys")
      case True
      then have "gameMode \<in> set object_prototype_keys" by (simp add: object_prototype_keys_def)
      then have "?ms = []" by (rule findMatches_prototype_key)
      then show ?thesis by (rule disjI2)
    next
      case False
      then show ?thesis by (rule disjI1)
    qed
    have x5: "b = None \<and> channel w \<longrightarrow> r = Inr None" using n x(6) k by blast
    show ?thesis by (rule exI [of _ X]) (intro conjI x(1) x(3) x(4) x4 x5 x(7))
  qed
qed

theorem tick_effect_witness:
  "fst (tick_body entry_json 2000 uuid_seq ''chess'' (None, double_world)) = Inr None
   \<and> (\<exists>X. match_found (processMatchmaking entry_json 2000 uuid_seq ''chess'' None double_world)
            = match_found double_world @ X
        \<and> set (zmembers (queues
              (processMatchmaking entry_json 2000 uuid_seq ''chess'' None double_world) ''chess''))
          = set (zmembers (queues double_world ''chess'')) - (\<Union>m \<in> set X. set (m_players m)))
   \<and> map m_players (match_found
         (processMatchmaking entry_json 2000 uuid_seq ''chess'' None double_world))
     = [ [entry ''alice'' 1000 None 0, entry ''bob'' 1050 None 0] ]
   \<and> zmembers (queues double_world ''chess'')
     = [entry ''alice'' 1000 None 0, entry ''alice'' 1016 None 1, entry ''bob'' 1050 None 0]
   \<and> zmembers (queues
         (processMatchmaking entry_json 2000 uuid_seq ''chess'' None double_world) ''chess'')
     = [entry ''alice'' 1016 None 1]"
proof -
  have p: "tick_body entry_json 2000 uuid_seq ''chess'' (None, double_world)
      = (fst (tick_body entry_json 2000 uuid_seq ''chess'' (None, double_world)),
         processMatchmaking entry_json 2000 uuid_seq ''chess'' None double_world)"
    by (simp add: processMatchmaking_def)
  have c: "channel double_world"
    by (simp add: double_world_def two_players_def empty_world_def)
  have v: "map m_players (match_found
         (processMatchmaking entry_json 2000 uuid_seq ''chess'' None double_world))
     = [ [entry ''alice'' 1000 None 0, entry ''bob'' 1050 None 0] ]"
    "zmembers (queues double_world ''chess'')
     = [entry ''alice'' 1000 None 0, entry ''alice'' 1016 None 1, entry ''bob'' 1050 None 0]"
    "zmembers (queues
         (processMatchmaking entry_json 2000 uuid_seq ''chess'' None double_world) ''chess'')
     = [entry ''alice'' 1016 None 1]"
    by (simp_all add: double_world_def double_queue_def two_players_def empty_world_def tick_defs)
  from tick_effect [OF p] obtain X where
    x1: "match_found (processMatchmaking entry_json 2000 uuid_seq ''chess'' None double_world)
          = match_found double_world @ X"
    and x4: "\<forall>b'. fst (tick_body entry_json 2000 uuid_seq ''chess'' (None, double_world)) = Inr b' \<longrightarrow>
       set (zmembers (queues
              (processMatchmaking entry_json 2000 uuid_seq ''chess'' None double_world) ''chess''))
          = set (zmembers (queues double_world ''chess'')) - (\<Union>m \<in> set X. set (m_players m))"
    and x5: "None = (None :: nat option) \<and> channel double_world \<longrightarrow>
       fst (tick_body entry_json 2000 uuid_seq ''chess'' (None, double_world)) = Inr None"
    by (elim exE conjE) (rule that; assumption)
  from x5 c have r: "fst (tick_body entry_json 2000 uuid_seq ''chess'' (None, double_world)) = Inr None"
    by simp
  from x4 r have e: "set (zmembers (queues
              (processMatchmaking entry_json 2000 uuid_seq ''chess'' None double_world) ''chess''))
          = set (zmembers (queues double_world ''chess'')) - (\<Union>m \<in> set X. set (m_players m))"
    by blast
  have ex: "\<exists>X. match_found (processMatchmaking entry_json 2000 uuid_seq ''chess'' None double_world)
            = match_found double_world @ X
        \<and> set (zmembers (queues
              (processMatchmaking entry_json 2000 uuid_seq ''chess'' None double_world) ''chess''))
          = set (zmembers (queues double_world ''chess'')) - (\<Union>m \<in> set X. set (m_players m))"
    by (rule exI [of _ X]) (intro conjI x1 e)
  show ?thesis by (intro conjI r ex v)
qed

end
